theory Spec2Isabelle
  imports Main "HOL-Library.Char_ord" "HOL-Library.List_Lexorder" "HOL-Library.Sublist" "HOL-Library.Multiset"
begin

section \<open>JavaScript strings\<close>

text \<open>
  The scripts work on JavaScript strings. A string is modelled as a list of 8-bit
  characters, read as the code units U+0000 to U+00FF; \<open>length\<close> is the string's
  \<^verbatim>\<open>length\<close> and equality of lists is \<^verbatim>\<open>===\<close>. The character classes and the case
  mappings below are those of ECMAScript on that range.
\<close>

text \<open>The class \<^verbatim>\<open>\d\<close>: the ten ASCII digits.\<close>

definition isDigit :: "char \<Rightarrow> bool" where
  "isDigit c = (CHR ''0'' \<le> c \<and> c \<le> CHR ''9'')"

text \<open>
  The class \<^verbatim>\<open>\s\<close>, which is also what \<^verbatim>\<open>trim\<close> strips: tab, line feed, vertical tab,
  form feed, carriage return, space and the no-break space.
\<close>

definition isSpace :: "char \<Rightarrow> bool" where
  "isSpace c =
     (c \<in> set [CHR 0x09, CHR 0x0A, CHR 0x0B, CHR 0x0C, CHR 0x0D, CHR 0x20, CHR 0xA0])"

text \<open>
  Case mapping of one code unit to one code unit: the ASCII letters and the Latin-1
  letters (U+00C0 to U+00DE without the multiplication sign, U+00E0 to U+00FE without
  the division sign) are 32 apart. Two characters, the micro sign and y with diaeresis,
  have an upper case outside the range of the model, which leaves them as they are.
\<close>

definition toLowerCase_char :: "char \<Rightarrow> char" where
  "toLowerCase_char c =
     (let n = of_char c :: nat in
      if (65 \<le> n \<and> n \<le> 90) \<or> (192 \<le> n \<and> n \<le> 222 \<and> n \<noteq> 215)
      then char_of (n + 32) else c)"

definition toUpperCase_char :: "char \<Rightarrow> char" where
  "toUpperCase_char c =
     (let n = of_char c :: nat in
      if (97 \<le> n \<and> n \<le> 122) \<or> (224 \<le> n \<and> n \<le> 254 \<and> n \<noteq> 247)
      then char_of (n - 32) else c)"

definition toLowerCase :: "string \<Rightarrow> string" where
  "toLowerCase s = map toLowerCase_char s"

text \<open>\<^verbatim>\<open>s.toUpperCase()\<close>: the upper case of the sharp s is two characters.\<close>

definition toUpperCase :: "string \<Rightarrow> string" where
  "toUpperCase s = concat (map (\<lambda>c. if c = CHR 0xDF then ''SS'' else [toUpperCase_char c]) s)"

text \<open>
  \<^verbatim>\<open>s.charAt(i)\<close> (the empty string when out of range), \<^verbatim>\<open>s.slice(b, e)\<close> and
  \<^verbatim>\<open>s.slice(b)\<close> for the literal, non-negative bounds the scripts use,
  \<^verbatim>\<open>s.startsWith(p)\<close>, \<^verbatim>\<open>s.trim()\<close> and \<^verbatim>\<open>parts.join(sep)\<close>.
\<close>

definition charAt :: "string \<Rightarrow> nat \<Rightarrow> string" where
  "charAt s i = take 1 (drop i s)"

definition slice :: "string \<Rightarrow> nat \<Rightarrow> nat \<Rightarrow> string" where
  "slice s b e = take (e - b) (drop b s)"

definition sliceFrom :: "string \<Rightarrow> nat \<Rightarrow> string" where
  "sliceFrom s b = drop b s"

definition startsWith :: "string \<Rightarrow> string \<Rightarrow> bool" where
  "startsWith s p = (take (length p) s = p)"

definition trim :: "string \<Rightarrow> string" where
  "trim s = rev (dropWhile isSpace (rev (dropWhile isSpace s)))"

fun join :: "string \<Rightarrow> string list \<Rightarrow> string" where
  "join sep [] = []"
| "join sep [x] = x"
| "join sep (x # y # ys) = x @ sep @ join sep (y # ys)"

text \<open>
  \<^verbatim>\<open>s.replace(/C+/g, r)\<close> for a character class \<open>C\<close>: every maximal run of characters
  of the class is replaced by \<open>r\<close>.
\<close>

function replaceRuns :: "(char \<Rightarrow> bool) \<Rightarrow> string \<Rightarrow> string \<Rightarrow> string" where
  "replaceRuns C r [] = []"
| "replaceRuns C r (c # cs) =
     (if C c then r @ replaceRuns C r (dropWhile C cs) else c # replaceRuns C r cs)"
  by pat_completeness auto
termination
  by (relation "measure (\<lambda>(C, r, s). length s)")
    (auto simp: length_dropWhile_le less_Suc_eq_le)

text \<open>
  \<^verbatim>\<open>s.replace(/ Word$/i, '')\<close>: the pattern is anchored at the end of the string, so
  its only possible match is the string's last characters. Under the flag \<^verbatim>\<open>i\<close> two
  characters match when their one-character upper-case forms agree.
\<close>

definition removeSuffix_ci :: "string \<Rightarrow> string \<Rightarrow> string" where
  "removeSuffix_ci suf s =
     (let n = length s - length suf in
      if length suf \<le> length s
         \<and> map toUpperCase_char (drop n s) = map toUpperCase_char suf
      then take n s else s)"

section \<open>Phone formatter\<close>

text \<open>
  \<^verbatim>\<open>phone.replace(/[^\d+]/g, '')\<close>: every character that is neither a digit nor a plus
  sign is removed; a plus sign is kept wherever it stands.
\<close>

definition cleanPhone :: "string \<Rightarrow> string" where
  "cleanPhone phone = filter (\<lambda>c. isDigit c \<or> c = CHR ''+'') phone"

text \<open>
  The branches of \<^verbatim>\<open>formatPhone\<close> after the cleaning, which the batch script and the
  single-town script share word for word.
\<close>

definition formatCleaned :: "string \<Rightarrow> string \<Rightarrow> string" where
  "formatCleaned phone cleaned =
     (if length cleaned = 10 then
        ''('' @ slice cleaned 0 3 @ '') '' @ slice cleaned 3 6 @ ''-'' @ sliceFrom cleaned 6
      else if length cleaned = 11 \<and> startsWith cleaned ''1'' then
        ''('' @ slice cleaned 1 4 @ '') '' @ slice cleaned 4 7 @ ''-'' @ sliceFrom cleaned 7
      else phone)"

text \<open>
  \<^verbatim>\<open>formatPhone\<close> of the batch script. The argument is \<^verbatim>\<open>tags.phone\<close>: \<open>None\<close> is
  \<^verbatim>\<open>undefined\<close>. A falsy argument (absent or empty) gives the empty string.
\<close>

definition formatPhone :: "string option \<Rightarrow> string" where
  "formatPhone phone =
     (case phone of
        None \<Rightarrow> ''''
      | Some p \<Rightarrow> if p = [] then '''' else formatCleaned p (cleanPhone p))"

text \<open>
  \<^verbatim>\<open>formatPhone\<close> of the single-town script: a falsy argument gives \<^verbatim>\<open>null\<close>
  (\<open>None\<close>).
\<close>

definition formatPhone_single :: "string option \<Rightarrow> string option" where
  "formatPhone_single phone =
     (case phone of
        None \<Rightarrow> None
      | Some p \<Rightarrow> if p = [] then None else Some (formatCleaned p (cleanPhone p)))"

section \<open>Identifier derivation\<close>

text \<open>
  \<^verbatim>\<open>slugify\<close>: lower-case; remove what \<^verbatim>\<open>[^a-z0-9\s-]\<close> matches; replace each run of
  white space by one hyphen; replace each run of hyphens by one hyphen; \<^verbatim>\<open>trim()\<close>,
  which strips white space from both ends.
\<close>

definition removeOther :: "string \<Rightarrow> string" where
  "removeOther s =
     filter (\<lambda>c. (CHR ''a'' \<le> c \<and> c \<le> CHR ''z'') \<or> isDigit c \<or> isSpace c \<or> c = CHR ''-'') s"

definition slugify :: "string \<Rightarrow> string" where
  "slugify name =
     trim (replaceRuns (\<lambda>c. c = CHR ''-'') ''-''
       (replaceRuns isSpace ''-'' (removeOther (toLowerCase name))))"

text \<open>The three suffix replacements of \<^verbatim>\<open>fetchNJTownsList\<close>, in the source's order.\<close>

definition cleanName :: "string \<Rightarrow> string" where
  "cleanName name =
     removeSuffix_ci '' City''
       (removeSuffix_ci '' Borough'' (removeSuffix_ci '' Township'' name))"

text \<open>The \<^verbatim>\<open>slug\<close> field of a town: \<^verbatim>\<open>slugify(cleanName) + '-nj'\<close>.\<close>

definition townSlug :: "string \<Rightarrow> string" where
  "townSlug name = slugify (cleanName name) @ ''-nj''"

section \<open>Category classifier\<close>

text \<open>
  A tag mapping is the \<^verbatim>\<open>tags\<close> object of an element of the Overpass response: a finite
  map from tag keys to tag values, both strings. An absent key reads as \<^verbatim>\<open>undefined\<close>
  (\<open>None\<close>). A tag value is truthy when it is there and not empty.
\<close>

type_synonym tags = "string \<rightharpoonup> string"

definition hasValue :: "tags \<Rightarrow> string \<Rightarrow> bool" where
  "hasValue tags key = (case tags key of None \<Rightarrow> False | Some v \<Rightarrow> v \<noteq> [])"

text \<open>
  The static table \<^verbatim>\<open>categoryMap\<close> of the batch script, in the order of the source.
\<close>

definition categoryEntries :: "(string \<times> string) list" where
  "categoryEntries =
    [(''restaurant'', ''Restaurant''), (''cafe'', ''Cafe''), (''bar'', ''Bar''),
     (''pub'', ''Pub''), (''fast_food'', ''Fast Food''), (''bank'', ''Bank''),
     (''pharmacy'', ''Pharmacy''), (''hospital'', ''Hospital''), (''clinic'', ''Clinic''),
     (''doctors'', ''Doctor''), (''dentist'', ''Dentist''),
     (''veterinary'', ''Veterinary''), (''school'', ''School''),
     (''library'', ''Library''), (''post_office'', ''Post Office''),
     (''fuel'', ''Gas Station''), (''car_wash'', ''Car Wash''),
     (''car_repair'', ''Auto Repair''), (''parking'', ''Parking''),
     (''place_of_worship'', ''Place of Worship''), (''theatre'', ''Theatre''),
     (''cinema'', ''Cinema''), (''nightclub'', ''Nightclub''), (''gym'', ''Gym''),
     (''community_centre'', ''Community Center''),
     (''social_facility'', ''Social Services''), (''childcare'', ''Childcare''),
     (''supermarket'', ''Supermarket''), (''convenience'', ''Convenience Store''),
     (''bakery'', ''Bakery''), (''butcher'', ''Butcher''),
     (''grocery'', ''Grocery Store''), (''deli'', ''Deli''),
     (''clothes'', ''Clothing Store''), (''shoes'', ''Shoe Store''),
     (''jewelry'', ''Jewelry Store''), (''electronics'', ''Electronics Store''),
     (''hardware'', ''Hardware Store''), (''furniture'', ''Furniture Store''),
     (''car'', ''Car Dealership''), (''car_parts'', ''Auto Parts''),
     (''bicycle'', ''Bicycle Shop''), (''beauty'', ''Beauty Salon''),
     (''hairdresser'', ''Hair Salon''), (''optician'', ''Optician''),
     (''florist'', ''Florist''), (''gift'', ''Gift Shop''), (''books'', ''Bookstore''),
     (''alcohol'', ''Liquor Store''), (''tobacco'', ''Tobacco Shop''),
     (''laundry'', ''Laundromat''), (''dry_cleaning'', ''Dry Cleaning''),
     (''mobile_phone'', ''Mobile Phone Store''), (''computer'', ''Computer Store''),
     (''department_store'', ''Department Store''), (''mall'', ''Shopping Mall''),
     (''variety_store'', ''Variety Store''), (''pet'', ''Pet Store''),
     (''toys'', ''Toy Store''), (''sports'', ''Sporting Goods''),
     (''outdoor'', ''Outdoor Store''), (''music'', ''Music Store''),
     (''photo'', ''Photo Store''), (''tattoo'', ''Tattoo Parlor''),
     (''pawnbroker'', ''Pawn Shop''), (''lawyer'', ''Law Office''),
     (''accountant'', ''Accountant''), (''insurance'', ''Insurance''),
     (''estate_agent'', ''Real Estate''), (''employment_agency'', ''Employment Agency''),
     (''travel_agent'', ''Travel Agency''), (''notary'', ''Notary''),
     (''tax_advisor'', ''Tax Advisor''), (''financial'', ''Financial Services''),
     (''plumber'', ''Plumber''), (''electrician'', ''Electrician''), (''hvac'', ''HVAC''),
     (''carpenter'', ''Carpenter''), (''painter'', ''Painter''), (''roofer'', ''Roofer''),
     (''locksmith'', ''Locksmith''), (''hotel'', ''Hotel''), (''motel'', ''Motel''),
     (''guest_house'', ''Guest House''), (''hostel'', ''Hostel''),
     (''museum'', ''Museum''), (''attraction'', ''Attraction'')]"

text \<open>
  The table of the single-town script. Six keys (\<^verbatim>\<open>car_repair\<close>, \<^verbatim>\<open>hospital\<close>,
  \<^verbatim>\<open>clinic\<close>, \<^verbatim>\<open>doctors\<close>, \<^verbatim>\<open>dentist\<close>, \<^verbatim>\<open>pharmacy\<close>) are written twice.
\<close>

definition categoryEntries_single :: "(string \<times> string) list" where
  "categoryEntries_single =
    [(''restaurant'', ''Restaurant''), (''cafe'', ''Cafe''), (''bar'', ''Bar''),
     (''pub'', ''Pub''), (''fast_food'', ''Fast Food''), (''bank'', ''Bank''),
     (''pharmacy'', ''Pharmacy''), (''hospital'', ''Hospital''), (''clinic'', ''Clinic''),
     (''doctors'', ''Doctor''), (''dentist'', ''Dentist''),
     (''veterinary'', ''Veterinary''), (''school'', ''School''),
     (''library'', ''Library''), (''post_office'', ''Post Office''),
     (''fuel'', ''Gas Station''), (''car_wash'', ''Car Wash''),
     (''car_repair'', ''Auto Repair''), (''parking'', ''Parking''),
     (''place_of_worship'', ''Place of Worship''), (''theatre'', ''Theatre''),
     (''cinema'', ''Cinema''), (''nightclub'', ''Nightclub''), (''gym'', ''Gym''),
     (''community_centre'', ''Community Center''),
     (''social_facility'', ''Social Services''), (''childcare'', ''Childcare''),
     (''supermarket'', ''Supermarket''), (''convenience'', ''Convenience Store''),
     (''bakery'', ''Bakery''), (''butcher'', ''Butcher''),
     (''grocery'', ''Grocery Store''), (''deli'', ''Deli''),
     (''clothes'', ''Clothing Store''), (''shoes'', ''Shoe Store''),
     (''jewelry'', ''Jewelry Store''), (''electronics'', ''Electronics Store''),
     (''hardware'', ''Hardware Store''), (''furniture'', ''Furniture Store''),
     (''car'', ''Car Dealership''), (''car_repair'', ''Auto Repair''),
     (''car_parts'', ''Auto Parts''), (''bicycle'', ''Bicycle Shop''),
     (''beauty'', ''Beauty Salon''), (''hairdresser'', ''Hair Salon''),
     (''optician'', ''Optician''), (''florist'', ''Florist''), (''gift'', ''Gift Shop''),
     (''books'', ''Bookstore''), (''alcohol'', ''Liquor Store''),
     (''tobacco'', ''Tobacco Shop''), (''laundry'', ''Laundromat''),
     (''dry_cleaning'', ''Dry Cleaning''), (''mobile_phone'', ''Mobile Phone Store''),
     (''computer'', ''Computer Store''), (''department_store'', ''Department Store''),
     (''mall'', ''Shopping Mall''), (''variety_store'', ''Variety Store''),
     (''pet'', ''Pet Store''), (''toys'', ''Toy Store''),
     (''sports'', ''Sporting Goods''), (''outdoor'', ''Outdoor Store''),
     (''music'', ''Music Store''), (''photo'', ''Photo Store''),
     (''tattoo'', ''Tattoo Parlor''), (''pawnbroker'', ''Pawn Shop''),
     (''lawyer'', ''Law Office''), (''accountant'', ''Accountant''),
     (''insurance'', ''Insurance''), (''estate_agent'', ''Real Estate''),
     (''employment_agency'', ''Employment Agency''),
     (''travel_agent'', ''Travel Agency''), (''notary'', ''Notary''),
     (''tax_advisor'', ''Tax Advisor''), (''financial'', ''Financial Services''),
     (''plumber'', ''Plumber''), (''electrician'', ''Electrician''), (''hvac'', ''HVAC''),
     (''carpenter'', ''Carpenter''), (''painter'', ''Painter''), (''roofer'', ''Roofer''),
     (''locksmith'', ''Locksmith''), (''hotel'', ''Hotel''), (''motel'', ''Motel''),
     (''guest_house'', ''Guest House''), (''hostel'', ''Hostel''),
     (''museum'', ''Museum''), (''attraction'', ''Attraction''),
     (''hospital'', ''Hospital''), (''clinic'', ''Clinic''), (''doctors'', ''Doctor''),
     (''dentist'', ''Dentist''), (''pharmacy'', ''Pharmacy'')]"

text \<open>
  Both tables are object literals. Reading \<^verbatim>\<open>categoryMap[value]\<close> gives the label
  of the object's own property \<open>value\<close> (where a key is written twice, the later
  definition has overwritten the earlier one); failing that, the member of that name
  which every object inherits from \<^verbatim>\<open>Object.prototype\<close>, which is a function or an
  object and not a string; failing that, \<^verbatim>\<open>undefined\<close> (\<open>None\<close>).
\<close>

datatype jsval = Str string | Builtin string

definition objectPrototypeNames :: "string list" where
  "objectPrototypeNames =
    [''constructor'', ''__defineGetter__'', ''__defineSetter__'', ''hasOwnProperty'',
     ''__lookupGetter__'', ''__lookupSetter__'', ''isPrototypeOf'',
     ''propertyIsEnumerable'', ''toString'', ''valueOf'', ''__proto__'',
     ''toLocaleString'']"

definition ownProperty :: "(string \<times> string) list \<Rightarrow> string \<Rightarrow> string option" where
  "ownProperty entries key = map_of (rev entries) key"

definition getProperty :: "(string \<times> string) list \<Rightarrow> string \<Rightarrow> jsval option" where
  "getProperty entries key =
     (case ownProperty entries key of
        Some label \<Rightarrow> Some (Str label)
      | None \<Rightarrow> if key \<in> set objectPrototypeNames then Some (Builtin key) else None)"

definition categoryMap :: "string \<Rightarrow> jsval option" where
  "categoryMap = getProperty categoryEntries"

definition categoryMap_single :: "string \<Rightarrow> jsval option" where
  "categoryMap_single = getProperty categoryEntries_single"

text \<open>Truthiness of what such a read gives: a string is truthy unless empty.\<close>

fun truthy :: "jsval option \<Rightarrow> bool" where
  "truthy None = False"
| "truthy (Some (Str s)) = (s \<noteq> [])"
| "truthy (Some (Builtin n)) = True"

text \<open>
  The label derived from a value without a table entry:
  \<^verbatim>\<open>value.charAt(0).toUpperCase() + value.slice(1).replace(/_/g, ' ')\<close>.
\<close>

definition replaceUnderscores :: "string \<Rightarrow> string" where
  "replaceUnderscores s = map (\<lambda>c. if c = CHR ''_'' then CHR '' '' else c) s"

definition deriveLabel :: "string \<Rightarrow> string" where
  "deriveLabel v = toUpperCase (charAt v 0) @ replaceUnderscores (sliceFrom v 1)"

definition tagTypes :: "string list" where
  "tagTypes = [''shop'', ''amenity'', ''office'', ''craft'', ''tourism'', ''healthcare'']"

text \<open>
  \<^verbatim>\<open>getCategory\<close> of the batch script: the loop over \<^verbatim>\<open>tagTypes\<close>, with the
  \<^verbatim>\<open>return 'Business'\<close> that follows it as the case of the empty list. The test for
  \<^verbatim>\<open>'yes'\<close> comes before the table lookup.
\<close>

fun getCategory_loop :: "tags \<Rightarrow> string list \<Rightarrow> jsval" where
  "getCategory_loop tags [] = Str ''Business''"
| "getCategory_loop tags (tagType # rest) =
     (case tags tagType of
        None \<Rightarrow> getCategory_loop tags rest
      | Some v \<Rightarrow>
          if v = [] then getCategory_loop tags rest
          else if v = ''yes'' then getCategory_loop tags rest
          else if truthy (categoryMap v) then the (categoryMap v)
          else Str (deriveLabel v))"

definition getCategory :: "tags \<Rightarrow> jsval" where
  "getCategory tags = getCategory_loop tags tagTypes"

text \<open>
  \<^verbatim>\<open>getCategory\<close> of the single-town script: the table lookup comes before the test
  for \<^verbatim>\<open>'yes'\<close>, and the table is that script's own.
\<close>

fun getCategory_single_loop :: "tags \<Rightarrow> string list \<Rightarrow> jsval" where
  "getCategory_single_loop tags [] = Str ''Business''"
| "getCategory_single_loop tags (tagType # rest) =
     (case tags tagType of
        None \<Rightarrow> getCategory_single_loop tags rest
      | Some v \<Rightarrow>
          if v = [] then getCategory_single_loop tags rest
          else if truthy (categoryMap_single v) then the (categoryMap_single v)
          else if v = ''yes'' then getCategory_single_loop tags rest
          else Str (deriveLabel v))"

definition getCategory_single :: "tags \<Rightarrow> jsval" where
  "getCategory_single tags = getCategory_single_loop tags tagTypes"

section \<open>Address formatter\<close>

text \<open>
  The value of a tag where the scripts use it as a string. They do so only after a test
  that it is truthy (for \<^verbatim>\<open>tags.name\<close>, the first \<^verbatim>\<open>filter\<close> of the pipeline); the
  absent tag reads as the empty string here.
\<close>

definition tagValue :: "tags \<Rightarrow> string \<Rightarrow> string" where
  "tagValue tags key = (case tags key of None \<Rightarrow> [] | Some v \<Rightarrow> v)"

text \<open>\<^verbatim>\<open>tags.a || tags.b || ""\<close>: the first truthy value, else the empty string.\<close>

fun firstTruthy :: "tags \<Rightarrow> string list \<Rightarrow> string" where
  "firstTruthy tags [] = []"
| "firstTruthy tags (key # keys) =
     (if hasValue tags key then tagValue tags key else firstTruthy tags keys)"

text \<open>
  The statements that build \<^verbatim>\<open>parts\<close> in the \<^verbatim>\<open>map\<close> callback of
  \<^verbatim>\<open>fetchBusinessesForTown\<close>, with \<^verbatim>\<open>town.displayName\<close> as \<open>displayName\<close>. The last
  element is updated in place when there is a postal code.
\<close>

definition addressParts :: "string \<Rightarrow> tags \<Rightarrow> string list" where
  "addressParts displayName tags =
     (let parts0 =
            (if hasValue tags ''addr:housenumber'' \<and> hasValue tags ''addr:street'' then
               [tagValue tags ''addr:housenumber'' @ '' '' @ tagValue tags ''addr:street'']
             else if hasValue tags ''addr:street'' then [tagValue tags ''addr:street'']
             else []);
          parts1 = parts0 @ [displayName];
          parts2 = parts1 @ [''NJ'']
      in if hasValue tags ''addr:postcode'' then
           parts2[length parts2 - 1 :=
             parts2 ! (length parts2 - 1) @ '' '' @ tagValue tags ''addr:postcode'']
         else parts2)"

definition address :: "string \<Rightarrow> tags \<Rightarrow> string" where
  "address displayName tags = join '', '' (addressParts displayName tags)"

text \<open>
  \<^verbatim>\<open>formatAddress\<close> of the single-town script: the same statements, with the literal
  \<^verbatim>\<open>'Trenton'\<close> for the town.
\<close>

definition formatAddress :: "tags \<Rightarrow> string" where
  "formatAddress tags = address ''Trenton'' tags"

section \<open>Responses, towns and businesses\<close>

text \<open>
  The parsed Overpass response: \<^verbatim>\<open>data.elements\<close> may be missing, and an element may
  have no \<^verbatim>\<open>tags\<close>.
\<close>

record element =
  el_type :: string
  el_id :: int
  el_tags :: "tags option"

record response =
  elements :: "element list option"

text \<open>
  A town of the list; \<open>'n\<close> is the type of what \<^verbatim>\<open>parseInt\<close> returns, and
  \<^verbatim>\<open>null\<close> is \<open>None\<close>.
\<close>

record 'n town =
  t_name :: string
  t_displayName :: string
  t_slug :: string
  t_population :: "'n option"
  t_osmId :: int
  t_type :: string

record business =
  b_name :: string
  b_category :: jsval
  b_address :: string
  b_phone :: string
  b_email :: string
  b_website :: string
  b_hours :: string
  b_rating :: "int option"
  b_review_count :: "int option"
  b_claimed :: bool
  b_featured :: bool

datatype error = Error string | TypeError string

section \<open>Array methods\<close>

text \<open>\<^verbatim>\<open>xs.findIndex(p)\<close>: the index of the first element that satisfies \<open>p\<close>, else -1.\<close>

fun findIndex :: "('a \<Rightarrow> bool) \<Rightarrow> 'a list \<Rightarrow> int" where
  "findIndex p [] = - 1"
| "findIndex p (x # xs) =
     (if p x then 0 else (let i = findIndex p xs in if i = - 1 then - 1 else i + 1))"

text \<open>
  \<^verbatim>\<open>xs.filter((x, index, self) => ...)\<close>: the callback sees the element, its index and
  the whole array.
\<close>

definition filterIndexed :: "('a \<Rightarrow> nat \<Rightarrow> 'a list \<Rightarrow> bool) \<Rightarrow> 'a list \<Rightarrow> 'a list" where
  "filterIndexed f xs = map snd (filter (\<lambda>(index, x). f x index xs) (enumerate 0 xs))"

text \<open>
  \<^verbatim>\<open>xs.sort(cmp)\<close>, a stable sort. ECMAScript leaves the algorithm and the sequence
  of calls of the comparator to the engine, and an exception of the comparator ends the
  sort. V8, the engine of Node, takes the elements in the order of the array and
  inserts each among the elements before it: it calls the comparator with the element
  to insert as first argument and an element already placed as second, and places the
  element before the first one that the comparator puts it strictly before (V8 finds
  that place by bisection, and sorts an array of 64 elements or more in runs that it
  merges). The model is this insertion sort, with the place found from the left and
  with the comparator a function that returns a number or raises.
\<close>

fun insertSorted :: "('a \<Rightarrow> 'a \<Rightarrow> error + int) \<Rightarrow> 'a \<Rightarrow> 'a list \<Rightarrow> error + 'a list" where
  "insertSorted cmp x [] = Inr [x]"
| "insertSorted cmp x (y # ys) =
     (case cmp x y of
        Inl e \<Rightarrow> Inl e
      | Inr c \<Rightarrow>
          if c < 0 then Inr (x # y # ys)
          else (case insertSorted cmp x ys of Inl e \<Rightarrow> Inl e | Inr zs \<Rightarrow> Inr (y # zs)))"

text \<open>
  The elements \<open>placed\<close> are sorted; those of the second list, which come later in
  the array, are still to insert.
\<close>

fun sortInto :: "('a \<Rightarrow> 'a \<Rightarrow> error + int) \<Rightarrow> 'a list \<Rightarrow> 'a list \<Rightarrow> error + 'a list" where
  "sortInto cmp placed [] = Inr placed"
| "sortInto cmp placed (x # xs) =
     (case insertSorted cmp x placed of
        Inl e \<Rightarrow> Inl e
      | Inr placed' \<Rightarrow> sortInto cmp placed' xs)"

definition sortWith :: "('a \<Rightarrow> 'a \<Rightarrow> error + int) \<Rightarrow> 'a list \<Rightarrow> error + 'a list" where
  "sortWith cmp xs = sortInto cmp [] xs"

text \<open>
  The first \<^verbatim>\<open>filter\<close> of both pipelines, \<^verbatim>\<open>el => el.tags && el.tags.name\<close>. The later
  callbacks read \<^verbatim>\<open>el.tags\<close> without a test, so the model hands each surviving element
  on together with its tag mapping.
\<close>

definition named :: "element list \<Rightarrow> (element \<times> tags) list" where
  "named els =
     List.map_filter
       (\<lambda>el. case el_tags el of
               None \<Rightarrow> None
             | Some tags \<Rightarrow> if hasValue tags ''name'' then Some (el, tags) else None)
       els"

section \<open>Per-town extraction\<close>

text \<open>The second \<^verbatim>\<open>filter\<close>: a postal code, when there is one, starts with 08 or 07.\<close>

definition inRegion :: "tags \<Rightarrow> bool" where
  "inRegion tags =
     (if hasValue tags ''addr:postcode'' then
        startsWith (tagValue tags ''addr:postcode'') ''08''
        \<or> startsWith (tagValue tags ''addr:postcode'') ''07''
      else True)"

text \<open>The \<^verbatim>\<open>map\<close> callback: the business record of a tag mapping.\<close>

definition toBusiness :: "string \<Rightarrow> tags \<Rightarrow> business" where
  "toBusiness displayName tags =
     \<lparr>b_name = tagValue tags ''name'',
      b_category = getCategory tags,
      b_address = address displayName tags,
      b_phone = formatPhone (tags ''phone''),
      b_email = firstTruthy tags [''email'', ''contact:email''],
      b_website = firstTruthy tags [''website'', ''contact:website''],
      b_hours = firstTruthy tags [''opening_hours''],
      b_rating = None,
      b_review_count = None,
      b_claimed = False,
      b_featured = False\<rparr>"

text \<open>
  The third \<^verbatim>\<open>filter\<close>: a record stays when its index is that of the first record with
  its name and its address.
\<close>

definition dedupBusinesses :: "business list \<Rightarrow> business list" where
  "dedupBusinesses bs =
     filterIndexed
       (\<lambda>business index self.
          int index = findIndex (\<lambda>b. b_name b = b_name business \<and> b_address b = b_address business) self)
       bs"

text \<open>
  The string a value gives as the argument of \<^verbatim>\<open>localeCompare\<close>: a member of
  \<^verbatim>\<open>Object.prototype\<close> is converted to its text (as V8 prints it). The member
  \<^verbatim>\<open>__proto__\<close> is the prototype object, the member \<^verbatim>\<open>constructor\<close> is the function
  \<^verbatim>\<open>Object\<close>, and every other member is a function of its own name.
\<close>

definition toString :: "jsval \<Rightarrow> string" where
  "toString v =
     (case v of
        Str s \<Rightarrow> s
      | Builtin n \<Rightarrow>
          if n = ''__proto__'' then ''[object Object]''
          else if n = ''constructor'' then ''function Object() { [native code] }''
          else ''function '' @ n @ ''() { [native code] }'')"

text \<open>
  The comparator of the final \<^verbatim>\<open>sort\<close>. \<^verbatim>\<open>localeCompare\<close> is the platform's collation
  and a parameter, \<open>lc\<close>, of the model. \<^verbatim>\<open>a.category.localeCompare\<close> exists only when
  \<^verbatim>\<open>a.category\<close> is a string; the call raises a \<^verbatim>\<open>TypeError\<close> otherwise.
\<close>

definition compareBusinesses ::
  "(string \<Rightarrow> string \<Rightarrow> int) \<Rightarrow> business \<Rightarrow> business \<Rightarrow> error + int" where
  "compareBusinesses lc a b =
     (case b_category a of
        Builtin n \<Rightarrow> Inl (TypeError ''a.category.localeCompare is not a function'')
      | Str category \<Rightarrow>
          (let catCompare = lc category (toString (b_category b)) in
           if catCompare \<noteq> 0 then Inr catCompare
           else Inr (lc (b_name a) (b_name b))))"

text \<open>The records before the sort: filtered, mapped and deduplicated.\<close>

definition collectBusinesses :: "string \<Rightarrow> element list \<Rightarrow> business list" where
  "collectBusinesses displayName els =
     dedupBusinesses (map (toBusiness displayName) (filter inRegion (map snd (named els))))"

text \<open>
  \<^verbatim>\<open>fetchBusinessesForTown\<close>, from the parsed response \<^verbatim>\<open>data\<close> on (the query and its
  transport are outside the model). A response without \<^verbatim>\<open>elements\<close> gives the empty
  list.
\<close>

definition fetchBusinessesForTown ::
  "(string \<Rightarrow> string \<Rightarrow> int) \<Rightarrow> 'n town \<Rightarrow> response \<Rightarrow> error + business list" where
  "fetchBusinessesForTown lc town data =
     (case elements data of
        None \<Rightarrow> Inr []
      | Some els \<Rightarrow>
          sortWith (compareBusinesses lc) (collectBusinesses (t_displayName town) els))"

section \<open>Town-list discovery\<close>

text \<open>The \<^verbatim>\<open>map\<close> callback; \<^verbatim>\<open>parseInt\<close> is the platform's and a parameter.\<close>

definition toTown :: "(string \<Rightarrow> 'n) \<Rightarrow> element \<times> tags \<Rightarrow> 'n town" where
  "toTown parseInt et =
     (case et of (el, tags) \<Rightarrow>
        \<lparr>t_name = tagValue tags ''name'',
         t_displayName = cleanName (tagValue tags ''name''),
         t_slug = townSlug (tagValue tags ''name''),
         t_population =
           (if hasValue tags ''population'' then Some (parseInt (tagValue tags ''population''))
            else None),
         t_osmId = el_id el,
         t_type = el_type el\<rparr>)"

definition dedupTowns :: "'n town list \<Rightarrow> 'n town list" where
  "dedupTowns ts =
     filterIndexed (\<lambda>town index self. int index = findIndex (\<lambda>t. t_slug t = t_slug town) self) ts"

definition compareTowns :: "(string \<Rightarrow> string \<Rightarrow> int) \<Rightarrow> 'n town \<Rightarrow> 'n town \<Rightarrow> error + int" where
  "compareTowns lc a b = Inr (lc (t_displayName a) (t_displayName b))"

text \<open>
  \<^verbatim>\<open>fetchNJTownsList\<close>, from the parsed response on. A response whose \<^verbatim>\<open>elements\<close> are
  missing or empty raises \<^verbatim>\<open>Error('No towns found in NJ')\<close>.
\<close>

definition fetchNJTownsList ::
  "(string \<Rightarrow> string \<Rightarrow> int) \<Rightarrow> (string \<Rightarrow> 'n) \<Rightarrow> response \<Rightarrow> error + 'n town list" where
  "fetchNJTownsList lc parseInt data =
     (case elements data of
        None \<Rightarrow> Inl (Error ''No towns found in NJ'')
      | Some els \<Rightarrow>
          if length els = 0 then Inl (Error ''No towns found in NJ'')
          else sortWith (compareTowns lc) (dedupTowns (map (toTown parseInt) (named els))))"

section \<open>Batch orchestrator\<close>

text \<open>
  What \<^verbatim>\<open>processTown\<close> meets when a town's turn comes: whether the town's data file
  exists, what the Overpass query gives (a parsed response, or the error of the
  transport or of the parser), and whether writing the two files raises.
\<close>

record town_env =
  dataFileExists :: bool
  overpass :: "error + response"
  writeError :: "error option"

text \<open>
  The object \<^verbatim>\<open>processTown\<close> returns; a missing \<^verbatim>\<open>error\<close> property is falsy, \<open>False\<close>
  here.
\<close>

record result =
  r_skipped :: bool
  r_businesses :: nat
  r_error :: bool

definition processTown :: "(string \<Rightarrow> string \<Rightarrow> int) \<Rightarrow> 'n town \<Rightarrow> town_env \<Rightarrow> result" where
  "processTown lc town env =
     (if dataFileExists env then \<lparr>r_skipped = True, r_businesses = 0, r_error = False\<rparr>
      else
        (case overpass env of
           Inl e \<Rightarrow> \<lparr>r_skipped = False, r_businesses = 0, r_error = True\<rparr>
         | Inr data \<Rightarrow>
             (case fetchBusinessesForTown lc town data of
                Inl e \<Rightarrow> \<lparr>r_skipped = False, r_businesses = 0, r_error = True\<rparr>
              | Inr businesses \<Rightarrow>
                  (case writeError env of
                     Some e \<Rightarrow> \<lparr>r_skipped = False, r_businesses = 0, r_error = True\<rparr>
                   | None \<Rightarrow>
                       \<lparr>r_skipped = False, r_businesses = length businesses,
                        r_error = False\<rparr>))))"

record counters =
  totalProcessed :: nat
  totalSkipped :: nat
  totalBusinesses :: nat
  totalErrors :: nat

definition BATCH_SIZE :: nat where
  "BATCH_SIZE = 20"

text \<open>The body of the inner loop of \<^verbatim>\<open>main\<close>: one town's result is counted.\<close>

definition countResult :: "result \<Rightarrow> counters \<Rightarrow> counters" where
  "countResult r c =
     (if r_skipped r then c\<lparr>totalSkipped := totalSkipped c + 1\<rparr>
      else if r_error r then c\<lparr>totalErrors := totalErrors c + 1\<rparr>
      else c\<lparr>totalProcessed := totalProcessed c + 1,
             totalBusinesses := totalBusinesses c + r_businesses r\<rparr>)"

text \<open>
  The inner loop, over one batch; \<open>i\<close> is the index, in the whole list, of the batch's
  first town, and \<open>world i\<close> is what the \<open>i\<close>-th town meets.
\<close>

fun batchLoop ::
  "(string \<Rightarrow> string \<Rightarrow> int) \<Rightarrow> (nat \<Rightarrow> town_env) \<Rightarrow> nat \<Rightarrow> 'n town list \<Rightarrow> counters \<Rightarrow> counters" where
  "batchLoop lc world i [] c = c"
| "batchLoop lc world i (town # batch) c =
     batchLoop lc world (Suc i) batch (countResult (processTown lc town (world i)) c)"

text \<open>
  The outer loop: \<^verbatim>\<open>for (let i = 0; i < towns.length; i += BATCH_SIZE)\<close> with
  \<^verbatim>\<open>batch = towns.slice(i, i + BATCH_SIZE)\<close>.
\<close>

function mainLoop ::
  "(string \<Rightarrow> string \<Rightarrow> int) \<Rightarrow> (nat \<Rightarrow> town_env) \<Rightarrow> 'n town list \<Rightarrow> nat \<Rightarrow> counters \<Rightarrow> counters" where
  "mainLoop lc world towns i c =
     (if i < length towns then
        mainLoop lc world towns (i + BATCH_SIZE)
          (batchLoop lc world i (take BATCH_SIZE (drop i towns)) c)
      else c)"
  by pat_completeness auto
termination
  by (relation "measure (\<lambda>(lc, world, towns, i, c). length towns - i)")
    (auto simp: BATCH_SIZE_def)

declare mainLoop.simps [simp del]

text \<open>
  A line of the standard output: a text, or a text followed by a number (the template
  \<^verbatim>\<open>`Towns processed: ${totalProcessed}`\<close>).
\<close>

datatype line = Line string | Figure string nat

definition summaryBlock :: "nat \<Rightarrow> counters \<Rightarrow> line list" where
  "summaryBlock n c =
     [Line (CHR 0x0A # ''========== SUMMARY ==========''),
      Figure ''Total towns in NJ: '' n,
      Figure ''Towns processed: '' (totalProcessed c),
      Figure ''Towns skipped (already exist): '' (totalSkipped c),
      Figure ''Towns with errors: '' (totalErrors c),
      Figure ''Total businesses found: '' (totalBusinesses c),
      Line (''=============================='' @ [CHR 0x0A])]"

text \<open>
  \<^verbatim>\<open>main\<close> of the batch script, from the point where \<^verbatim>\<open>towns\<close> is known: the four
  counters start at zero, the loops run, and the summary block is printed. The result
  is the final counters and the lines of the summary (the progress lines before it are
  not modelled).
\<close>

definition main ::
  "(string \<Rightarrow> string \<Rightarrow> int) \<Rightarrow> (nat \<Rightarrow> town_env) \<Rightarrow> 'n town list \<Rightarrow> counters \<times> line list" where
  "main lc world towns =
     (let c = mainLoop lc world towns 0
                \<lparr>totalProcessed = 0, totalSkipped = 0, totalBusinesses = 0, totalErrors = 0\<rparr>
      in (c, summaryBlock (length towns) c))"

text \<open>
  A comparator for the examples: the order of the code units. Any consistent comparator
  would do in its place.
\<close>

definition codeUnitCompare :: "string \<Rightarrow> string \<Rightarrow> int" where
  "codeUnitCompare a b = (if a < b then - 1 else if a = b then 0 else 1)"

text \<open>
  What ECMAScript calls a consistent comparator, for a comparator on strings that always
  returns: the signs of \<open>lc a b\<close> and \<open>lc b a\<close> are opposite, and "not after" is
  transitive.
\<close>

definition consistent :: "(string \<Rightarrow> string \<Rightarrow> int) \<Rightarrow> bool" where
  "consistent lc =
     ((\<forall>a b. (lc a b < 0) = (0 < lc b a))
      \<and> (\<forall>a b c. lc a b \<le> 0 \<and> lc b c \<le> 0 \<longrightarrow> lc a c \<le> 0))"

text \<open>
  The order of the claim on the sort: by category, the category's text compared with
  \<open>lc\<close>, and by name where the categories compare equal.
\<close>

definition categoryNameLe :: "(string \<Rightarrow> string \<Rightarrow> int) \<Rightarrow> business \<Rightarrow> business \<Rightarrow> bool" where
  "categoryNameLe lc a b =
     (lc (toString (b_category a)) (toString (b_category b)) < 0
      \<or> (lc (toString (b_category a)) (toString (b_category b)) = 0
          \<and> lc (b_name a) (b_name b) \<le> 0))"

section \<open>Notions the properties are stated with\<close>

text \<open>
  A tag key yields a usable value when its value is there, not empty and not the
  placeholder \<^verbatim>\<open>yes\<close>.
\<close>

definition usable :: "tags \<Rightarrow> string \<Rightarrow> bool" where
  "usable tags key = (case tags key of None \<Rightarrow> False | Some v \<Rightarrow> v \<noteq> [] \<and> v \<noteq> ''yes'')"

text \<open>
  The category of one value: what the last two statements of the loop body of the batch
  script's \<^verbatim>\<open>getCategory\<close> return for it.
\<close>

definition valueCategory :: "string \<Rightarrow> jsval" where
  "valueCategory v = (if truthy (categoryMap v) then the (categoryMap v) else Str (deriveLabel v))"

text \<open>The key of the deduplication: name and address.\<close>

definition nameAddress :: "business \<Rightarrow> string \<times> string" where
  "nameAddress b = (b_name b, b_address b)"

text \<open>How a result of \<^verbatim>\<open>processTown\<close> is counted.\<close>

definition succeeded :: "result \<Rightarrow> bool" where
  "succeeded r = (\<not> r_skipped r \<and> \<not> r_error r)"

definition errored :: "result \<Rightarrow> bool" where
  "errored r = (\<not> r_skipped r \<and> r_error r)"

text \<open>
  The results of \<^verbatim>\<open>processTown\<close> for consecutive towns, the first of which has index
  \<open>i\<close> in the whole list; and the results of a run, town by town.
\<close>

definition resultsFrom ::
  "(string \<Rightarrow> string \<Rightarrow> int) \<Rightarrow> (nat \<Rightarrow> town_env) \<Rightarrow> nat \<Rightarrow> 'n town list \<Rightarrow> result list" where
  "resultsFrom lc world i ts = map (\<lambda>(j, town). processTown lc town (world j)) (enumerate i ts)"

definition townResults ::
  "(string \<Rightarrow> string \<Rightarrow> int) \<Rightarrow> (nat \<Rightarrow> town_env) \<Rightarrow> 'n town list \<Rightarrow> result list" where
  "townResults lc world towns = resultsFrom lc world 0 towns"

section \<open>Example data\<close>

text \<open>A town and tagged elements for the examples that follow the theorems.\<close>

definition exampleTown :: "nat town" where
  "exampleTown =
     \<lparr>t_name = ''Trenton'', t_displayName = ''Trenton'', t_slug = ''trenton-nj'',
      t_population = None, t_osmId = 170953, t_type = ''relation''\<rparr>"

definition node :: "int \<Rightarrow> (string \<times> string) list \<Rightarrow> element" where
  "node i kvs = \<lparr>el_type = ''node'', el_id = i, el_tags = Some (map_of kvs)\<rparr>"

section \<open>Properties of the phone formatter\<close>

lemma cleanPhone_no_plus:
  assumes "CHR ''+'' \<notin> set p"
  shows "cleanPhone p = filter isDigit p"
  unfolding cleanPhone_def
  by (rule filter_cong) (use assms in auto)

lemma formatCleaned_other:
  assumes "length cleaned \<noteq> 10"
    and "\<not> (length cleaned = 11 \<and> startsWith cleaned ''1'')"
  shows "formatCleaned p cleaned = p"
  using assms by (auto simp: formatCleaned_def)

lemma formatCleaned_ten:
  assumes "length d = 10"
  shows "formatCleaned p d = ''('' @ take 3 d @ '') '' @ take 3 (drop 3 d) @ ''-'' @ drop 6 d"
  using assms by (simp add: formatCleaned_def slice_def sliceFrom_def)

lemma formatCleaned_eleven:
  assumes "length d = 11" and "hd d = CHR ''1''"
  shows "formatCleaned p d =
    ''('' @ take 3 (tl d) @ '') '' @ take 3 (drop 3 (tl d)) @ ''-'' @ drop 6 (tl d)"
proof -
  from assms obtain ds where d: "d = CHR ''1'' # ds"
    by (cases d) auto
  then show ?thesis
    using assms by (simp add: formatCleaned_def slice_def sliceFrom_def startsWith_def)
qed

text \<open>
  C1, counterexample. Ten digits remain of \<^verbatim>\<open>"+6095551234"\<close>, but the plus sign is kept
  and counted: the cleaned string has eleven characters and does not begin with
  \<^verbatim>\<open>"1"\<close>, so the input comes back as it was, not as \<^verbatim>\<open>"(609) 555-1234"\<close>.
\<close>

theorem formatPhone_plus_counterexample:
  "length (filter isDigit ''+6095551234'') = 10 \<and>
   formatPhone (Some ''+6095551234'') = ''+6095551234'' \<and>
   formatPhone (Some ''+6095551234'') \<noteq> ''(609) 555-1234''"
  by (simp add: formatPhone_def formatCleaned_def cleanPhone_def isDigit_def startsWith_def)

text \<open>
  C1, as amended. Let the cleaned string be the input without every character that is
  neither a digit nor a plus sign. For an input with no plus sign: if exactly ten
  digits remain the result is \<^verbatim>\<open>"(AAA) BBB-CCCC"\<close> built from them, and if exactly
  eleven digits remain and the first is \<^verbatim>\<open>"1"\<close>, that digit is dropped and the other ten
  are formatted the same way. For every input: if the cleaned string, plus signs
  counted, has a length other than ten and is not eleven characters beginning with
  \<^verbatim>\<open>"1"\<close>, the input is returned unmodified. The single-town formatter gives the same
  result on every non-empty input. So \<^verbatim>\<open>"609-555-1234"\<close> and \<^verbatim>\<open>"16095551234"\<close> give
  \<^verbatim>\<open>"(609) 555-1234"\<close>, and \<^verbatim>\<open>"555-1234"\<close> and \<^verbatim>\<open>"+6095551234"\<close> are returned unchanged.
\<close>

theorem formatPhone_amended:
  fixes p :: string
  defines "d \<equiv> filter isDigit p"
  shows "(CHR ''+'' \<notin> set p \<and> length d = 10 \<longrightarrow>
            formatPhone (Some p) = ''('' @ take 3 d @ '') '' @ take 3 (drop 3 d) @ ''-'' @ drop 6 d)
       \<and> (CHR ''+'' \<notin> set p \<and> length d = 11 \<and> hd d = CHR ''1'' \<longrightarrow>
            formatPhone (Some p) =
              ''('' @ take 3 (tl d) @ '') '' @ take 3 (drop 3 (tl d)) @ ''-'' @ drop 6 (tl d))
       \<and> (length (cleanPhone p) \<noteq> 10
            \<and> \<not> (length (cleanPhone p) = 11 \<and> startsWith (cleanPhone p) ''1'') \<longrightarrow>
            formatPhone (Some p) = p)
       \<and> (p \<noteq> [] \<longrightarrow> formatPhone_single (Some p) = Some (formatPhone (Some p)))
       \<and> formatPhone (Some ''609-555-1234'') = ''(609) 555-1234''
       \<and> formatPhone (Some ''16095551234'') = ''(609) 555-1234''
       \<and> formatPhone (Some ''555-1234'') = ''555-1234''
       \<and> formatPhone (Some ''+6095551234'') = ''+6095551234''"
proof (intro conjI impI)
  assume a: "CHR ''+'' \<notin> set p \<and> length d = 10"
  then have "p \<noteq> []" by (auto simp: d_def)
  with a show "formatPhone (Some p) =
      ''('' @ take 3 d @ '') '' @ take 3 (drop 3 d) @ ''-'' @ drop 6 d"
    using formatCleaned_ten [of d p] cleanPhone_no_plus [of p]
    by (simp add: formatPhone_def d_def)
next
  assume a: "CHR ''+'' \<notin> set p \<and> length d = 11 \<and> hd d = CHR ''1''"
  then have "p \<noteq> []" by (auto simp: d_def)
  with a show "formatPhone (Some p) =
      ''('' @ take 3 (tl d) @ '') '' @ take 3 (drop 3 (tl d)) @ ''-'' @ drop 6 (tl d)"
    using formatCleaned_eleven [of d p] cleanPhone_no_plus [of p]
    by (simp add: formatPhone_def d_def)
next
  assume "length (cleanPhone p) \<noteq> 10
    \<and> \<not> (length (cleanPhone p) = 11 \<and> startsWith (cleanPhone p) ''1'')"
  then show "formatPhone (Some p) = p"
    using formatCleaned_other [of "cleanPhone p" p] by (simp add: formatPhone_def)
next
  assume "p \<noteq> []"
  then show "formatPhone_single (Some p) = Some (formatPhone (Some p))"
    by (simp add: formatPhone_single_def formatPhone_def)
qed (simp_all add: formatPhone_def formatCleaned_def cleanPhone_def isDigit_def
      startsWith_def slice_def sliceFrom_def)

theorem formatPhone_amended_witness:
  "formatPhone (Some ''(609) 555 1234'') = ''(609) 555-1234''
   \<and> formatPhone (Some ''1 (609) 555 1234'') = ''(609) 555-1234''
   \<and> formatPhone (Some ''+1 609 555 1234'') = ''+1 609 555 1234''
   \<and> formatPhone_single (Some ''(609) 555 1234'') = Some ''(609) 555-1234''"
proof -
  have "formatPhone (Some ''(609) 555 1234'') = ''(609) 555-1234''"
    using formatPhone_amended [of "''(609) 555 1234''"]
    by (simp add: isDigit_def)
  moreover have "formatPhone (Some ''1 (609) 555 1234'') = ''(609) 555-1234''"
    using formatPhone_amended [of "''1 (609) 555 1234''"]
    by (simp add: isDigit_def)
  moreover have "formatPhone (Some ''+1 609 555 1234'') = ''+1 609 555 1234''"
    using formatPhone_amended [of "''+1 609 555 1234''"]
    by (simp add: isDigit_def cleanPhone_def)
  moreover have "formatPhone_single (Some ''(609) 555 1234'') = Some (formatPhone (Some ''(609) 555 1234''))"
    using formatPhone_amended [of "''(609) 555 1234''"]
    by simp
  ultimately show ?thesis by simp
qed

section \<open>Properties of the identifier derivation\<close>

text \<open>
  C2. The claim has the identifier trimmed of leading and trailing hyphens, so that no
  identifier has a hyphen at its start or just before the suffix \<^verbatim>\<open>-nj\<close>. The last step
  of \<^verbatim>\<open>slugify\<close> is \<^verbatim>\<open>trim()\<close>, which strips white space; by then every run of white
  space has become a hyphen, and the hyphens at the ends stay. A name with a trailing
  space gives a hyphen before the suffix, a name with a leading space a hyphen at the
  start. The two examples of the claim come out as it says.
\<close>

theorem townSlug_keeps_end_hyphens:
  "townSlug ''Trenton '' = ''trenton--nj''
   \<and> townSlug '' Trenton'' = ''-trenton-nj''
   \<and> townSlug ''Cherry Hill Township'' = ''cherry-hill-nj''
   \<and> townSlug ''Wildwood City'' = ''wildwood-nj''"
  by code_simp

section \<open>Properties of the category classifier\<close>

subsection \<open>The two tables\<close>

lemma distinct_categoryEntries: "distinct (map fst categoryEntries)"
  by (simp add: categoryEntries_def)

lemma no_label_Business: "(v, ''Business'') \<notin> set categoryEntries"
  by (simp add: categoryEntries_def)

lemma labels_not_empty: "(v, []) \<notin> set categoryEntries"
  by (simp add: categoryEntries_def)

lemma ownProperty_in_entries:
  assumes "ownProperty entries v = Some label"
  shows "(v, label) \<in> set entries"
  using assms map_of_SomeD [of "rev entries" v label] by (simp add: ownProperty_def)

lemma ownProperty_iff:
  "ownProperty categoryEntries v = Some label \<longleftrightarrow> (v, label) \<in> set categoryEntries"
proof -
  have "distinct (map fst (rev categoryEntries))"
    using distinct_categoryEntries by (simp add: rev_map [symmetric])
  then show ?thesis
    by (simp add: ownProperty_def)
qed

lemma ownProperty_None:
  assumes "v \<notin> fst ` set entries"
  shows "ownProperty entries v = None"
proof (cases "ownProperty entries v")
  case (Some label)
  then have "(v, label) \<in> set entries" by (rule ownProperty_in_entries)
  with assms show ?thesis by force
qed simp

text \<open>
  The table of the single-town script is that of the batch script with six bindings
  written a second time, each with the label it already has.
\<close>

lemma map_of_rev_dup:
  assumes "map_of (rev xs) k = Some v"
  shows "map_of (rev (xs @ (k, v) # ys)) = map_of (rev (xs @ ys))"
proof -
  have "(map_of (rev xs))(k \<mapsto> v) = map_of (rev xs)"
    using assms by (rule map_upd_triv)
  then show ?thesis
    by (simp add: map_of_append)
qed

lemma entries_single_split:
  "categoryEntries_single =
     take 40 categoryEntries @ (''car_repair'', ''Auto Repair'') # drop 40 categoryEntries
       @ [(''hospital'', ''Hospital''), (''clinic'', ''Clinic''), (''doctors'', ''Doctor''),
          (''dentist'', ''Dentist''), (''pharmacy'', ''Pharmacy'')]"
  by (simp add: categoryEntries_def categoryEntries_single_def)

lemma ownProperty_single: "ownProperty categoryEntries_single = ownProperty categoryEntries"
proof -
  let ?A = "take 40 categoryEntries"
  let ?B = "drop 40 categoryEntries"
  let ?T = "?A @ (''car_repair'', ''Auto Repair'') # ?B"
  have "map_of (rev ?A) ''car_repair'' = Some ''Auto Repair''"
    by (simp add: categoryEntries_def)
  then have T: "map_of (rev ?T) = map_of (rev categoryEntries)"
    using map_of_rev_dup [of ?A "''car_repair''" "''Auto Repair''" ?B] by simp
  have l1: "map_of (rev ?T) ''hospital'' = Some ''Hospital''"
    and l2: "map_of (rev ?T) ''clinic'' = Some ''Clinic''"
    and l3: "map_of (rev ?T) ''doctors'' = Some ''Doctor''"
    and l4: "map_of (rev ?T) ''dentist'' = Some ''Dentist''"
    and l5: "map_of (rev ?T) ''pharmacy'' = Some ''Pharmacy''"
    unfolding T by (simp_all add: categoryEntries_def)
  have "map_of (rev categoryEntries_single) =
      map_of (rev (?T @ (''hospital'', ''Hospital'') # [(''clinic'', ''Clinic''),
        (''doctors'', ''Doctor''), (''dentist'', ''Dentist''), (''pharmacy'', ''Pharmacy'')]))"
    by (simp only: entries_single_split append_Cons append_Nil append_assoc)
  also have "\<dots> = map_of (rev (?T @ (''clinic'', ''Clinic'') # [(''doctors'', ''Doctor''),
        (''dentist'', ''Dentist''), (''pharmacy'', ''Pharmacy'')]))"
    by (rule map_of_rev_dup [OF l1])
  also have "\<dots> = map_of (rev (?T @ (''doctors'', ''Doctor'') # [(''dentist'', ''Dentist''),
        (''pharmacy'', ''Pharmacy'')]))"
    by (rule map_of_rev_dup [OF l2])
  also have "\<dots> = map_of (rev (?T @ (''dentist'', ''Dentist'') # [(''pharmacy'', ''Pharmacy'')]))"
    by (rule map_of_rev_dup [OF l3])
  also have "\<dots> = map_of (rev (?T @ (''pharmacy'', ''Pharmacy'') # []))"
    by (rule map_of_rev_dup [OF l4])
  also have "\<dots> = map_of (rev (?T @ []))"
    by (rule map_of_rev_dup [OF l5])
  finally show ?thesis
    using T by (simp add: ownProperty_def fun_eq_iff)
qed

lemma categoryMap_single_eq: "categoryMap_single = categoryMap"
  by (simp add: categoryMap_single_def categoryMap_def getProperty_def ownProperty_single fun_eq_iff)

lemma categoryMap_yes: "categoryMap ''yes'' = None"
  by (simp add: categoryMap_def getProperty_def ownProperty_def categoryEntries_def
      objectPrototypeNames_def)

subsection \<open>Derived labels\<close>

lemma of_char_lt_256: "(of_char c :: nat) < 256"
proof -
  have "(of_char c :: nat) mod 256 = of_char c" by (rule of_char_mod_256)
  then show ?thesis
    by (metis mod_less_divisor zero_less_numeral)
qed

lemma char_of_eq_B:
  assumes "n < 256"
  shows "char_of (n::nat) = CHR ''B'' \<longleftrightarrow> n = 66"
proof
  assume "char_of n = CHR ''B''"
  then have "of_char (char_of n) = (of_char (CHR ''B'') :: nat)" by simp
  then have "n mod 256 = 66" by simp
  with assms show "n = 66" by simp
next
  assume "n = 66"
  then have "n = of_char (CHR ''B'')" by simp
  then show "char_of n = CHR ''B''" by (simp only: char_of_char)
qed

lemma toUpperCase_char_B:
  "toUpperCase_char c = CHR ''B'' \<longleftrightarrow> c = CHR ''B'' \<or> c = CHR ''b''"
proof -
  define n where "n = (of_char c :: nat)"
  have c: "c = char_of n" by (simp add: n_def)
  have lt: "n < 256" unfolding n_def by (rule of_char_lt_256)
  have b: "c = CHR ''b'' \<longleftrightarrow> n = 98"
  proof
    assume "c = CHR ''b''" then show "n = 98" by (simp add: n_def)
  next
    assume "n = 98"
    then have "n = of_char (CHR ''b'')" by simp
    then show "c = CHR ''b''" unfolding c by (simp only: char_of_char)
  qed
  have B: "c = CHR ''B'' \<longleftrightarrow> n = 66"
    unfolding c using lt by (rule char_of_eq_B)
  show ?thesis
  proof (cases "(97 \<le> n \<and> n \<le> 122) \<or> (224 \<le> n \<and> n \<le> 254 \<and> n \<noteq> 247)")
    case False
    then have "toUpperCase_char c = c"
      unfolding toUpperCase_char_def Let_def n_def by (simp only: if_False)
    moreover from False have "n \<noteq> 98" by auto
    ultimately show ?thesis using b by simp
  next
    case True
    then have u: "toUpperCase_char c = char_of (n - 32)"
      unfolding toUpperCase_char_def Let_def n_def by (simp only: if_True)
    from lt have "n - 32 < 256" by simp
    then have "char_of (n - 32) = CHR ''B'' \<longleftrightarrow> n - 32 = 66" by (rule char_of_eq_B)
    moreover from True have "n - 32 = 66 \<longleftrightarrow> n = 98" by auto
    moreover from True have "n \<noteq> 66" by auto
    ultimately show ?thesis using u b B by simp
  qed
qed

lemma replaceUnderscores_Cons:
  "replaceUnderscores s = x # xs \<longleftrightarrow>
     (\<exists>c cs. s = c # cs \<and> (if c = CHR ''_'' then CHR '' '' else c) = x \<and> replaceUnderscores cs = xs)"
  by (cases s) (auto simp: replaceUnderscores_def)

lemma replaceUnderscores_Nil: "replaceUnderscores s = [] \<longleftrightarrow> s = []"
  by (simp add: replaceUnderscores_def)

lemma replaceUnderscores_usiness:
  "replaceUnderscores s = ''usiness'' \<longleftrightarrow> s = ''usiness''"
proof
  assume "replaceUnderscores s = ''usiness''"
  then show "s = ''usiness''"
    by (auto simp: replaceUnderscores_Cons replaceUnderscores_Nil split: if_splits)
next
  assume "s = ''usiness''"
  then show "replaceUnderscores s = ''usiness''"
    by (simp add: replaceUnderscores_def)
qed

lemma deriveLabel_Cons:
  "deriveLabel (c # cs) =
     (if c = CHR 0xDF then ''SS'' else [toUpperCase_char c]) @ replaceUnderscores cs"
  by (simp add: deriveLabel_def charAt_def toUpperCase_def sliceFrom_def)

lemma deriveLabel_Business:
  "deriveLabel v = ''Business'' \<longleftrightarrow> v = ''business'' \<or> v = ''Business''"
proof (cases v)
  case Nil
  then show ?thesis
    by (simp add: deriveLabel_def charAt_def toUpperCase_def sliceFrom_def replaceUnderscores_def)
next
  case (Cons c cs)
  have "deriveLabel v = ''Business'' \<longleftrightarrow>
      toUpperCase_char c = CHR ''B'' \<and> replaceUnderscores cs = ''usiness''"
  proof (cases "c = CHR 0xDF")
    case True
    then have "toUpperCase_char c \<noteq> CHR ''B''"
      using toUpperCase_char_B [of c] by simp
    with True show ?thesis
      unfolding Cons deriveLabel_Cons by simp
  next
    case False
    then show ?thesis
      unfolding Cons deriveLabel_Cons by simp
  qed
  also have "\<dots> \<longleftrightarrow> (c = CHR ''B'' \<or> c = CHR ''b'') \<and> cs = ''usiness''"
    by (simp only: toUpperCase_char_B replaceUnderscores_usiness)
  also have "\<dots> \<longleftrightarrow> v = ''business'' \<or> v = ''Business''"
    unfolding Cons by auto
  finally show ?thesis .
qed

subsection \<open>The category of one value\<close>

lemma valueCategory_entry:
  assumes "(v, label) \<in> set categoryEntries"
  shows "valueCategory v = Str label"
proof -
  from assms have "ownProperty categoryEntries v = Some label" by (simp add: ownProperty_iff)
  moreover from assms labels_not_empty have "label \<noteq> []" by auto
  ultimately show ?thesis
    by (simp add: valueCategory_def categoryMap_def getProperty_def)
qed

lemma valueCategory_derived:
  assumes "v \<notin> fst ` set categoryEntries" and "v \<notin> set objectPrototypeNames"
  shows "valueCategory v = Str (deriveLabel v)"
  using ownProperty_None [OF assms(1)] assms(2)
  by (simp add: valueCategory_def categoryMap_def getProperty_def)

lemma valueCategory_builtin:
  assumes "v \<notin> fst ` set categoryEntries" and "v \<in> set objectPrototypeNames"
  shows "valueCategory v = Builtin v"
  using ownProperty_None [OF assms(1)] assms(2)
  by (simp add: valueCategory_def categoryMap_def getProperty_def)

lemma valueCategory_Business:
  assumes "valueCategory v = Str ''Business''"
  shows "v = ''business'' \<or> v = ''Business''"
proof (cases "ownProperty categoryEntries v")
  case (Some label)
  then have "(v, label) \<in> set categoryEntries" by (rule ownProperty_in_entries)
  then have "valueCategory v = Str label" and "label \<noteq> ''Business''"
    using no_label_Business by (auto simp: valueCategory_entry)
  with assms show ?thesis by simp
next
  case None
  then have "valueCategory v = Builtin v \<or> valueCategory v = Str (deriveLabel v)"
    by (simp add: valueCategory_def categoryMap_def getProperty_def)
  with assms have "deriveLabel v = ''Business''" by auto
  then show ?thesis by (simp only: deriveLabel_Business)
qed

subsection \<open>The loop over the tag keys\<close>

text \<open>
  The loop returns the category of the first tag key, in the order of \<^verbatim>\<open>tagTypes\<close>,
  that yields a usable value, and \<^verbatim>\<open>'Business'\<close> when there is none.
\<close>

lemma getCategory_loop_find:
  "getCategory_loop tags keys =
     (case find (usable tags) keys of
        None \<Rightarrow> Str ''Business''
      | Some key \<Rightarrow> valueCategory (the (tags key)))"
  by (induction keys) (simp_all add: usable_def valueCategory_def split: option.split)

lemma find_skip:
  assumes "\<forall>k \<in> set pre. \<not> P k"
  shows "find P (pre @ xs) = find P xs"
  using assms by (induction pre) simp_all

lemma getCategory_loops_agree:
  "getCategory_single_loop tags keys = getCategory_loop tags keys"
  by (induction keys) (simp_all add: categoryMap_single_eq categoryMap_yes split: option.split)

text \<open>
  A value that names a member of \<^verbatim>\<open>Object.prototype\<close> and is no key of the table: the
  read \<^verbatim>\<open>categoryMap[value]\<close> finds the inherited member, which is truthy, and
  \<^verbatim>\<open>getCategory\<close> returns it.
\<close>

lemma getCategory_builtin_example:
  "getCategory [''craft'' \<mapsto> ''constructor''] = Builtin ''constructor''"
  by code_simp

text \<open>
  C3, counterexample. The value of \<^verbatim>\<open>shop\<close> is \<^verbatim>\<open>yes\<close> and the lower-priority key
  \<^verbatim>\<open>office\<close> has the value \<^verbatim>\<open>business\<close>, which is not empty and not \<^verbatim>\<open>yes\<close>. The
  label derived from it is the string \<^verbatim>\<open>Business\<close>, the same string as the fallback.
\<close>

theorem getCategory_yes_counterexample:
  "getCategory [''shop'' \<mapsto> ''yes'', ''office'' \<mapsto> ''business''] = Str ''Business''"
  by code_simp

text \<open>
  C3, as amended. Let the tag keys before \<open>key\<close> in the priority order have no
  non-empty value, let the value of \<open>key\<close> be \<^verbatim>\<open>yes\<close>, and let \<open>key'\<close> be the first
  later key in that order with a non-empty value \<open>v\<close> other than \<^verbatim>\<open>yes\<close>. Then the
  classifier skips the \<^verbatim>\<open>yes\<close> and returns the category of \<open>v\<close>; this is not the
  string \<^verbatim>\<open>Business\<close> unless \<open>v\<close> is itself \<^verbatim>\<open>business\<close> or \<^verbatim>\<open>Business\<close>.
\<close>

theorem getCategory_skips_yes:
  assumes "tagTypes = pre @ key # post"
    and "\<forall>k \<in> set pre. \<not> hasValue tags k"
    and "tags key = Some ''yes''"
    and "find (usable tags) post = Some key'"
    and "tags key' = Some v"
  shows "getCategory tags = valueCategory v
    \<and> (v \<noteq> ''business'' \<and> v \<noteq> ''Business'' \<longrightarrow> getCategory tags \<noteq> Str ''Business'')"
proof -
  have "\<forall>k \<in> set (pre @ [key]). \<not> usable tags k"
    using assms(2,3) by (auto simp: usable_def hasValue_def split: option.splits)
  then have "find (usable tags) ((pre @ [key]) @ post) = find (usable tags) post"
    by (rule find_skip)
  then have "find (usable tags) tagTypes = Some key'"
    using assms(1,4) by simp
  then have r: "getCategory tags = valueCategory v"
    using assms(5) by (simp add: getCategory_def getCategory_loop_find)
  then show ?thesis
    using valueCategory_Business [of v] by auto
qed

theorem getCategory_skips_yes_witness:
  "getCategory [''shop'' \<mapsto> ''yes'', ''amenity'' \<mapsto> ''cafe''] = Str ''Cafe''
   \<and> getCategory [''shop'' \<mapsto> ''yes'', ''amenity'' \<mapsto> ''cafe''] \<noteq> Str ''Business''"
proof -
  let ?tags = "[''shop'' \<mapsto> ''yes'', ''amenity'' \<mapsto> ''cafe'']"
  have v: "valueCategory ''cafe'' = Str ''Cafe''"
    by (rule valueCategory_entry) (simp add: categoryEntries_def)
  have "getCategory ?tags = valueCategory ''cafe''
    \<and> (''cafe'' \<noteq> ''business'' \<and> ''cafe'' \<noteq> ''Business'' \<longrightarrow> getCategory ?tags \<noteq> Str ''Business'')"
    by (rule getCategory_skips_yes
        [where pre = "[]" and key = "''shop''" and key' = "''amenity''"
           and post = "[''amenity'', ''office'', ''craft'', ''tourism'', ''healthcare'']"])
      (simp_all add: tagTypes_def usable_def)
  then show ?thesis using v by simp
qed

text \<open>
  C4, counterexample. The value \<^verbatim>\<open>_x\<close> is no key of the table. The classifier returns
  it as it is: the underscore is its first character, and only the characters after
  the first have their underscores replaced. The claim has every underscore replaced,
  which would give \<^verbatim>\<open>" x"\<close>.
\<close>

theorem getCategory_underscore_counterexample:
  "''_x'' \<notin> fst ` set categoryEntries
   \<and> getCategory [''shop'' \<mapsto> ''_x''] = Str ''_x''
   \<and> replaceUnderscores (toUpperCase (charAt ''_x'' 0) @ sliceFrom ''_x'' 1) = '' x''"
proof -
  have "''_x'' \<notin> fst ` set categoryEntries"
    by (simp add: categoryEntries_def)
  moreover have "getCategory [''shop'' \<mapsto> ''_x''] = Str ''_x''"
    by code_simp
  moreover have "replaceUnderscores (toUpperCase (charAt ''_x'' 0) @ sliceFrom ''_x'' 1) = '' x''"
    by code_simp
  ultimately show ?thesis by simp
qed

text \<open>
  C4, as amended. The classifier considers the keys shop, amenity, office, craft,
  tourism, healthcare in that order. If none yields a usable value it returns
  \<^verbatim>\<open>Business\<close>. Otherwise let \<open>v\<close> be the value of the first key that yields one: if
  the table maps \<open>v\<close> to a label, the classifier returns exactly that label; if \<open>v\<close>
  is neither a key of the table nor the name of a member of \<^verbatim>\<open>Object.prototype\<close>, it
  returns the first character of \<open>v\<close> in upper case followed by the rest of \<open>v\<close> with
  every underscore replaced by a space. So \<^verbatim>\<open>foo_bar\<close> gives \<^verbatim>\<open>Foo bar\<close>.
\<close>

theorem getCategory_amended:
  "(find (usable tags) tagTypes = None \<longrightarrow> getCategory tags = Str ''Business'')
   \<and> (\<forall>key v. find (usable tags) tagTypes = Some key \<and> tags key = Some v \<longrightarrow>
         (\<forall>label. (v, label) \<in> set categoryEntries \<longrightarrow> getCategory tags = Str label)
         \<and> (v \<notin> fst ` set categoryEntries \<and> v \<notin> set objectPrototypeNames \<longrightarrow>
              getCategory tags = Str (toUpperCase (take 1 v) @ replaceUnderscores (drop 1 v))))
   \<and> getCategory [''shop'' \<mapsto> ''foo_bar''] = Str ''Foo bar''"
proof (intro conjI allI impI)
  assume "find (usable tags) tagTypes = None"
  then show "getCategory tags = Str ''Business''"
    by (simp add: getCategory_def getCategory_loop_find)
next
  fix key v label
  assume "find (usable tags) tagTypes = Some key \<and> tags key = Some v"
    and "(v, label) \<in> set categoryEntries"
  then show "getCategory tags = Str label"
    by (simp add: getCategory_def getCategory_loop_find valueCategory_entry)
next
  fix key v
  assume "find (usable tags) tagTypes = Some key \<and> tags key = Some v"
    and "v \<notin> fst ` set categoryEntries \<and> v \<notin> set objectPrototypeNames"
  then show "getCategory tags = Str (toUpperCase (take 1 v) @ replaceUnderscores (drop 1 v))"
    by (simp add: getCategory_def getCategory_loop_find valueCategory_derived
        deriveLabel_def charAt_def sliceFrom_def)
next
  show "getCategory [''shop'' \<mapsto> ''foo_bar''] = Str ''Foo bar''"
    by code_simp
qed

theorem getCategory_amended_witness:
  "getCategory [''amenity'' \<mapsto> ''fast_food''] = Str ''Fast Food''
   \<and> getCategory [''shop'' \<mapsto> ''yes'', ''craft'' \<mapsto> ''stone_mason''] = Str ''Stone mason''
   \<and> getCategory [''name'' \<mapsto> ''Acme'', ''shop'' \<mapsto> ''yes''] = Str ''Business''"
proof -
  let ?t1 = "[''amenity'' \<mapsto> ''fast_food'']"
  let ?t2 = "[''shop'' \<mapsto> ''yes'', ''craft'' \<mapsto> ''stone_mason'']"
  let ?t3 = "[''name'' \<mapsto> ''Acme'', ''shop'' \<mapsto> ''yes'']"
  have f1: "find (usable ?t1) tagTypes = Some ''amenity'' \<and> ?t1 ''amenity'' = Some ''fast_food''"
    by (simp add: tagTypes_def usable_def)
  have e1: "(''fast_food'', ''Fast Food'') \<in> set categoryEntries"
    by (simp add: categoryEntries_def)
  have f2: "find (usable ?t2) tagTypes = Some ''craft'' \<and> ?t2 ''craft'' = Some ''stone_mason''"
    by (simp add: tagTypes_def usable_def)
  have e2: "''stone_mason'' \<notin> fst ` set categoryEntries \<and> ''stone_mason'' \<notin> set objectPrototypeNames"
    by (simp add: categoryEntries_def objectPrototypeNames_def)
  have d2: "toUpperCase (take 1 ''stone_mason'') @ replaceUnderscores (drop 1 ''stone_mason'') = ''Stone mason''"
    by code_simp
  have f3: "find (usable ?t3) tagTypes = None"
    by (simp add: tagTypes_def usable_def)
  have "getCategory ?t1 = Str ''Fast Food''"
    using getCategory_amended [of ?t1] f1 e1 by blast
  moreover have "getCategory ?t2 = Str ''Stone mason''"
    using getCategory_amended [of ?t2] f2 e2 d2 by metis
  moreover have "getCategory ?t3 = Str ''Business''"
    using getCategory_amended [of ?t3] f3 by blast
  ultimately show ?thesis by simp
qed

text \<open>
  C10. For every tag mapping the classifier of the single-town script returns what the
  classifier of the batch script returns: the two tables define the same reads, and
  \<^verbatim>\<open>yes\<close> is a key of neither, so the order of the two tests does not matter.
\<close>

theorem getCategory_single_eq: "getCategory_single tags = getCategory tags"
  by (simp add: getCategory_single_def getCategory_def getCategory_loops_agree)

theorem getCategory_single_eq_witness:
  "getCategory_single [''shop'' \<mapsto> ''yes'', ''healthcare'' \<mapsto> ''pharmacy''] = Str ''Pharmacy''
   \<and> getCategory [''shop'' \<mapsto> ''yes'', ''healthcare'' \<mapsto> ''pharmacy''] = Str ''Pharmacy''"
proof -
  have "getCategory [''shop'' \<mapsto> ''yes'', ''healthcare'' \<mapsto> ''pharmacy''] = Str ''Pharmacy''"
    by code_simp
  then show ?thesis
    using getCategory_single_eq [of "[''shop'' \<mapsto> ''yes'', ''healthcare'' \<mapsto> ''pharmacy'']"]
    by simp
qed

section \<open>Properties of the array methods\<close>

subsection \<open>Finding the first index\<close>

lemma findIndex_none: "findIndex p xs = - 1 \<longleftrightarrow> (\<forall>x \<in> set xs. \<not> p x)"
proof (induction xs)
  case Nil
  then show ?case by simp
next
  case (Cons x xs)
  have "0 \<le> findIndex p ys \<or> findIndex p ys = - 1" for ys
    by (induction ys) (auto simp: Let_def)
  from this [of xs] Cons show ?case
    by (auto simp: Let_def)
qed

lemma findIndex_lt:
  assumes "\<exists>x \<in> set xs. p x"
  shows "0 \<le> findIndex p xs \<and> findIndex p xs < int (length xs)"
  using assms
proof (induction xs)
  case Nil
  then show ?case by simp
next
  case (Cons x xs)
  show ?case
  proof (cases "p x")
    case True
    then show ?thesis by simp
  next
    case False
    with Cons.prems have "\<exists>y \<in> set xs. p y" by simp
    then have "0 \<le> findIndex p xs \<and> findIndex p xs < int (length xs)" by (rule Cons.IH)
    with False show ?thesis by (simp add: Let_def)
  qed
qed

lemma findIndex_append:
  "findIndex p (xs @ ys) =
     (if \<exists>x \<in> set xs. p x then findIndex p xs
      else if findIndex p ys = - 1 then - 1 else int (length xs) + findIndex p ys)"
proof (induction xs)
  case Nil
  then show ?case by simp
next
  case (Cons x xs)
  show ?case
  proof (cases "p x")
    case True
    then show ?thesis by simp
  next
    case False
    show ?thesis
    proof (cases "\<exists>x \<in> set xs. p x")
      case True
      with False Cons show ?thesis by simp
    next
      case no: False
      have nn: "findIndex p ys = - 1 \<or> 0 \<le> findIndex p ys"
        using findIndex_none [of p ys] findIndex_lt [of ys p] by blast
      from no False Cons nn show ?thesis
        by (auto simp: Let_def)
    qed
  qed
qed

lemma find_snoc:
  "find p (xs @ [y]) = (case find p xs of Some x \<Rightarrow> Some x | None \<Rightarrow> if p y then Some y else None)"
  by (induction xs) simp_all

text \<open>
  A filter that keeps the element whose index is that of the first element it matches,
  for a match that every element has with itself: an element appended to the array is
  kept when no earlier element matches it, and the elements before it fare as before.
\<close>

lemma filterIndexed_first_snoc:
  assumes qrefl: "\<And>x. q x x"
  shows "filterIndexed (\<lambda>x i self. int i = findIndex (q x) self) (xs @ [y]) =
     filterIndexed (\<lambda>x i self. int i = findIndex (q x) self) xs
       @ (if \<exists>x \<in> set xs. q y x then [] else [y])"
proof -
  have same: "findIndex (q x) (xs @ [y]) = findIndex (q x) xs" if "x \<in> set xs" for x
  proof -
    from that qrefl have "\<exists>z \<in> set xs. q x z" by blast
    then show ?thesis by (simp add: findIndex_append)
  qed
  have "filter (\<lambda>(i, x). int i = findIndex (q x) (xs @ [y])) (enumerate 0 xs) =
      filter (\<lambda>(i, x). int i = findIndex (q x) xs) (enumerate 0 xs)"
  proof (rule filter_cong [OF HOL.refl])
    fix ix assume "ix \<in> set (enumerate 0 xs)"
    then have "snd ix \<in> set xs"
      by (metis in_set_zipE enumerate_eq_zip prod.collapse)
    then show "(case ix of (i, x) \<Rightarrow> int i = findIndex (q x) (xs @ [y])) =
        (case ix of (i, x) \<Rightarrow> int i = findIndex (q x) xs)"
      by (cases ix) (simp add: same)
  qed
  moreover have "(int (length xs) = findIndex (q y) (xs @ [y])) \<longleftrightarrow> \<not> (\<exists>x \<in> set xs. q y x)"
  proof (cases "\<exists>x \<in> set xs. q y x")
    case True
    then have "findIndex (q y) xs < int (length xs)" using findIndex_lt [of xs "q y"] by simp
    with True show ?thesis by (simp add: findIndex_append)
  next
    case False
    with qrefl [of y] show ?thesis by (simp add: findIndex_append)
  qed
  ultimately show ?thesis
    by (simp add: filterIndexed_def enumerate_append_eq)
qed

subsection \<open>Sorting\<close>

text \<open>
  The sort returns a permutation of its input. When the comparator's answers agree
  with a transitive relation, what it returns is sorted by that relation; when the
  comparator raises on no pair of elements, the sort returns.
\<close>

lemma insertSorted_mset:
  assumes "insertSorted cmp x ys = Inr zs"
  shows "mset zs = add_mset x (mset ys)"
  using assms
proof (induction ys arbitrary: zs)
  case Nil
  then show ?case by auto
next
  case (Cons y ys)
  then show ?case
    by (auto split: sum.splits if_splits)
qed

lemma sortInto_mset:
  assumes "sortInto cmp placed xs = Inr ys"
  shows "mset ys = mset placed + mset xs"
  using assms
proof (induction xs arbitrary: placed)
  case Nil
  then show ?case by simp
next
  case (Cons x xs)
  from Cons.prems obtain placed' where i: "insertSorted cmp x placed = Inr placed'"
    and s: "sortInto cmp placed' xs = Inr ys"
    by (auto split: sum.splits)
  from s have "mset ys = mset placed' + mset xs" by (rule Cons.IH)
  with insertSorted_mset [OF i] show ?case by simp
qed

lemma sortWith_mset:
  assumes "sortWith cmp xs = Inr ys"
  shows "mset ys = mset xs"
  using sortInto_mset [of cmp "[]" xs ys] assms by (simp add: sortWith_def)

lemma insertSorted_sorted:
  assumes trans: "\<And>a b c. le a b \<Longrightarrow> le b c \<Longrightarrow> le a c"
    and sound: "\<And>a b c. cmp a b = Inr c \<Longrightarrow> (if c < 0 then le a b else le b a)"
    and "sorted_wrt le ys"
    and "insertSorted cmp x ys = Inr zs"
  shows "sorted_wrt le zs"
  using assms(3,4)
proof (induction ys arbitrary: zs)
  case Nil
  then show ?case by auto
next
  case (Cons y ys)
  from Cons.prems(2) obtain c where c: "cmp x y = Inr c"
    by (auto split: sum.splits)
  show ?case
  proof (cases "c < 0")
    case True
    with c Cons.prems(2) have zs: "zs = x # y # ys" by simp
    from sound [OF c] True have xy: "le x y" by simp
    have "\<forall>z \<in> set ys. le x z"
      using Cons.prems(1) xy trans by auto
    with xy Cons.prems(1) show ?thesis by (simp add: zs)
  next
    case False
    with c Cons.prems(2) obtain zs' where zs': "insertSorted cmp x ys = Inr zs'" and zs: "zs = y # zs'"
      by (auto split: sum.splits)
    from sound [OF c] False have yx: "le y x" by simp
    from Cons.prems(1) have "sorted_wrt le ys" by simp
    then have s: "sorted_wrt le zs'" using zs' by (rule Cons.IH)
    have "set zs' = insert x (set ys)"
      using insertSorted_mset [OF zs'] by (metis set_mset_add_mset_insert set_mset_mset)
    with yx Cons.prems(1) have "\<forall>z \<in> set zs'. le y z" by auto
    with s show ?thesis by (simp add: zs)
  qed
qed

lemma sortInto_sorted:
  assumes trans: "\<And>a b c. le a b \<Longrightarrow> le b c \<Longrightarrow> le a c"
    and sound: "\<And>a b c. cmp a b = Inr c \<Longrightarrow> (if c < 0 then le a b else le b a)"
    and "sorted_wrt le placed"
    and "sortInto cmp placed xs = Inr ys"
  shows "sorted_wrt le ys"
  using assms(3,4)
proof (induction xs arbitrary: placed)
  case Nil
  then show ?case by simp
next
  case (Cons x xs)
  from Cons.prems(2) obtain placed' where i: "insertSorted cmp x placed = Inr placed'"
    and s: "sortInto cmp placed' xs = Inr ys"
    by (auto split: sum.splits)
  have "sorted_wrt le placed'"
    using insertSorted_sorted [of le cmp placed x placed'] trans sound Cons.prems(1) i by blast
  then show ?case using s by (rule Cons.IH)
qed

lemma sortWith_sorted:
  assumes trans: "\<And>a b c. le a b \<Longrightarrow> le b c \<Longrightarrow> le a c"
    and sound: "\<And>a b c. cmp a b = Inr c \<Longrightarrow> (if c < 0 then le a b else le b a)"
    and "sortWith cmp xs = Inr ys"
  shows "sorted_wrt le ys"
proof (rule sortInto_sorted [where cmp = cmp and placed = "[]" and xs = xs])
  show "le a c" if "le a b" and "le b c" for a b c using that by (rule trans)
  show "if c < 0 then le a b else le b a" if "cmp a b = Inr c" for a b c
    using that by (rule sound)
  show "sorted_wrt le []" by simp
  show "sortInto cmp [] xs = Inr ys" using assms(3) by (simp add: sortWith_def)
qed

lemma insertSorted_total:
  assumes "\<forall>y \<in> set ys. \<exists>c. cmp x y = Inr c"
  shows "\<exists>zs. insertSorted cmp x ys = Inr zs"
  using assms by (induction ys) (auto split: sum.splits)

lemma sortInto_total:
  assumes "\<forall>x \<in> set placed \<union> set xs. \<forall>y \<in> set placed \<union> set xs. \<exists>c. cmp x y = Inr c"
  shows "\<exists>ys. sortInto cmp placed xs = Inr ys"
  using assms
proof (induction xs arbitrary: placed)
  case Nil
  then show ?case by simp
next
  case (Cons x xs)
  from Cons.prems have "\<forall>y \<in> set placed. \<exists>c. cmp x y = Inr c" by simp
  then obtain placed' where i: "insertSorted cmp x placed = Inr placed'"
    using insertSorted_total [of placed cmp x] by auto
  have "set placed' = insert x (set placed)"
    using insertSorted_mset [OF i] by (metis set_mset_add_mset_insert set_mset_mset)
  with Cons.prems have "\<forall>a \<in> set placed' \<union> set xs. \<forall>b \<in> set placed' \<union> set xs. \<exists>c. cmp a b = Inr c"
    by simp
  then have "\<exists>ys. sortInto cmp placed' xs = Inr ys" by (rule Cons.IH)
  with i show ?case by simp
qed

lemma sortWith_total:
  assumes "\<forall>x \<in> set xs. \<forall>y \<in> set xs. \<exists>c. cmp x y = Inr c"
  shows "\<exists>ys. sortWith cmp xs = Inr ys"
  using sortInto_total [of "[]" xs cmp] assms by (simp add: sortWith_def)

lemma sortWith_single: "sortWith cmp [x] = Inr [x]"
  by (simp add: sortWith_def)

lemma sortWith_Nil: "sortWith cmp [] = Inr []"
  by (simp add: sortWith_def)

lemma sorted_wrt_adjacent:
  assumes "sorted_wrt le xs" and "Suc i < length xs"
  shows "le (xs ! i) (xs ! Suc i)"
  using assms by (simp add: sorted_wrt_iff_nth_less)

section \<open>Properties of the address formatter\<close>

lemma address_eq:
  "address d tags =
     (if hasValue tags ''addr:street'' then
        (if hasValue tags ''addr:housenumber''
         then tagValue tags ''addr:housenumber'' @ '' '' @ tagValue tags ''addr:street''
         else tagValue tags ''addr:street'') @ '', ''
      else [])
     @ d @ '', NJ''
     @ (if hasValue tags ''addr:postcode'' then '' '' @ tagValue tags ''addr:postcode'' else [])"
  by (simp add: address_def addressParts_def Let_def)

lemma joe_category:
  "getCategory [''name'' \<mapsto> ''Joe's Deli'', ''shop'' \<mapsto> ''deli'',
      ''addr:housenumber'' \<mapsto> ''12'', ''addr:street'' \<mapsto> ''Main St'',
      ''addr:postcode'' \<mapsto> ''08608'', ''phone'' \<mapsto> ''6095551234''] = Str ''Deli''"
  by code_simp

lemma joe_phone: "formatPhone (Some ''6095551234'') = ''(609) 555-1234''"
  by code_simp

text \<open>
  C5. For every tag mapping and town display name, the address is: the first segment
  followed by a comma and a space, when there is one, which is house number, space and
  street when both tags have a value, and the street alone when only the street has
  one; then the display name, a comma and a space, and \<^verbatim>\<open>NJ\<close>; then, when the postal
  code has a value, a space and the postal code, appended to that last segment. A tag
  has a value when it is there and not empty, which is the test the code makes. The
  single-town formatter is the same with \<^verbatim>\<open>Trenton\<close> for the town. For the element with
  the tags of Joe's Deli in the town displayed as Trenton, the pipeline gives one
  record with the name \<^verbatim>\<open>Joe's Deli\<close>, the category \<^verbatim>\<open>Deli\<close>, the address
  \<^verbatim>\<open>12 Main St, Trenton, NJ 08608\<close> and the phone \<^verbatim>\<open>(609) 555-1234\<close>.
\<close>

theorem address_and_record:
  "address d tags =
     (if hasValue tags ''addr:street'' then
        (if hasValue tags ''addr:housenumber''
         then tagValue tags ''addr:housenumber'' @ '' '' @ tagValue tags ''addr:street''
         else tagValue tags ''addr:street'') @ '', ''
      else [])
     @ d @ '', NJ''
     @ (if hasValue tags ''addr:postcode'' then '' '' @ tagValue tags ''addr:postcode'' else [])
   \<and> formatAddress tags = address ''Trenton'' tags
   \<and> fetchBusinessesForTown lc (town\<lparr>t_displayName := ''Trenton''\<rparr>)
        \<lparr>elements = Some [el\<lparr>el_tags := Some
           [''name'' \<mapsto> ''Joe's Deli'', ''shop'' \<mapsto> ''deli'',
            ''addr:housenumber'' \<mapsto> ''12'', ''addr:street'' \<mapsto> ''Main St'',
            ''addr:postcode'' \<mapsto> ''08608'', ''phone'' \<mapsto> ''6095551234'']\<rparr>]\<rparr>
      = Inr [\<lparr>b_name = ''Joe's Deli'', b_category = Str ''Deli'',
              b_address = ''12 Main St, Trenton, NJ 08608'', b_phone = ''(609) 555-1234'',
              b_email = [], b_website = [], b_hours = [], b_rating = None,
              b_review_count = None, b_claimed = False, b_featured = False\<rparr>]"
proof (intro conjI)
  show "address d tags =
     (if hasValue tags ''addr:street'' then
        (if hasValue tags ''addr:housenumber''
         then tagValue tags ''addr:housenumber'' @ '' '' @ tagValue tags ''addr:street''
         else tagValue tags ''addr:street'') @ '', ''
      else [])
     @ d @ '', NJ''
     @ (if hasValue tags ''addr:postcode'' then '' '' @ tagValue tags ''addr:postcode'' else [])"
    by (rule address_eq)
  show "formatAddress tags = address ''Trenton'' tags"
    by (simp add: formatAddress_def)
  let ?tags = "[''name'' \<mapsto> ''Joe's Deli'', ''shop'' \<mapsto> ''deli'',
            ''addr:housenumber'' \<mapsto> ''12'', ''addr:street'' \<mapsto> ''Main St'',
            ''addr:postcode'' \<mapsto> ''08608'', ''phone'' \<mapsto> ''6095551234'']"
  have n: "named [el\<lparr>el_tags := Some ?tags\<rparr>] = [(el\<lparr>el_tags := Some ?tags\<rparr>, ?tags)]"
    by (simp add: named_def List.map_filter_simps hasValue_def)
  have r: "inRegion ?tags"
    by (simp add: inRegion_def hasValue_def tagValue_def startsWith_def)
  have b: "toBusiness ''Trenton'' ?tags =
      \<lparr>b_name = ''Joe's Deli'', b_category = Str ''Deli'',
              b_address = ''12 Main St, Trenton, NJ 08608'', b_phone = ''(609) 555-1234'',
              b_email = [], b_website = [], b_hours = [], b_rating = None,
              b_review_count = None, b_claimed = False, b_featured = False\<rparr>"
    unfolding toBusiness_def joe_category address_eq
    by (simp add: hasValue_def tagValue_def joe_phone)
  have d1: "dedupBusinesses [x] = [x]" for x
    by (simp add: dedupBusinesses_def filterIndexed_def enumerate_eq_zip)
  show "fetchBusinessesForTown lc (town\<lparr>t_displayName := ''Trenton''\<rparr>)
        \<lparr>elements = Some [el\<lparr>el_tags := Some ?tags\<rparr>]\<rparr>
      = Inr [\<lparr>b_name = ''Joe's Deli'', b_category = Str ''Deli'',
              b_address = ''12 Main St, Trenton, NJ 08608'', b_phone = ''(609) 555-1234'',
              b_email = [], b_website = [], b_hours = [], b_rating = None,
              b_review_count = None, b_claimed = False, b_featured = False\<rparr>]"
    by (simp add: fetchBusinessesForTown_def collectBusinesses_def n r b d1 sortWith_single)
qed

theorem address_and_record_witness:
  "address ''Trenton''
     [''addr:housenumber'' \<mapsto> ''12'', ''addr:street'' \<mapsto> ''Main St'', ''addr:postcode'' \<mapsto> ''08608'']
     = ''12 Main St, Trenton, NJ 08608''
   \<and> address ''Hoboken'' [''addr:street'' \<mapsto> ''Washington St''] = ''Washington St, Hoboken, NJ''
   \<and> address ''Hoboken'' [''addr:housenumber'' \<mapsto> ''5'', ''addr:postcode'' \<mapsto> ''07030'']
     = ''Hoboken, NJ 07030''"
proof -
  note a = address_and_record [where lc = codeUnitCompare and town = exampleTown and el = "node 1 []"]
  have "address ''Trenton''
     [''addr:housenumber'' \<mapsto> ''12'', ''addr:street'' \<mapsto> ''Main St'', ''addr:postcode'' \<mapsto> ''08608'']
     = ''12 Main St, Trenton, NJ 08608''"
    using a [where d = "''Trenton''" and tags = "[''addr:housenumber'' \<mapsto> ''12'',
      ''addr:street'' \<mapsto> ''Main St'', ''addr:postcode'' \<mapsto> ''08608'']"]
    by (simp add: hasValue_def tagValue_def)
  moreover have "address ''Hoboken'' [''addr:street'' \<mapsto> ''Washington St'']
      = ''Washington St, Hoboken, NJ''"
    using a [where d = "''Hoboken''" and tags = "[''addr:street'' \<mapsto> ''Washington St'']"]
    by (simp add: hasValue_def tagValue_def)
  moreover have "address ''Hoboken'' [''addr:housenumber'' \<mapsto> ''5'', ''addr:postcode'' \<mapsto> ''07030'']
     = ''Hoboken, NJ 07030''"
    using a [where d = "''Hoboken''" and tags = "[''addr:housenumber'' \<mapsto> ''5'',
      ''addr:postcode'' \<mapsto> ''07030'']"]
    by (simp add: hasValue_def tagValue_def)
  ultimately show ?thesis by simp
qed

section \<open>Properties of the final sort\<close>

lemma consistent_codeUnitCompare: "consistent codeUnitCompare"
  unfolding consistent_def codeUnitCompare_def by (auto split: if_splits)

lemma lc_zero_sym:
  assumes "consistent lc" and "lc a b = 0"
  shows "lc b a = 0"
proof -
  from assms(1) have s: "\<And>x y. (lc x y < 0) = (0 < lc y x)"
    by (simp add: consistent_def)
  from s [of a b] s [of b a] assms(2) show ?thesis by auto
qed

lemma lc_trans:
  assumes "consistent lc" and "lc a b \<le> 0" and "lc b c \<le> 0"
  shows "lc a c \<le> 0"
  using assms unfolding consistent_def by blast

lemma lc_strict_trans1:
  assumes "consistent lc" and "lc a b < 0" and "lc b c \<le> 0"
  shows "lc a c < 0"
proof (rule ccontr)
  assume "\<not> lc a c < 0"
  moreover from assms(2) have ab: "lc a b \<le> 0" by simp
  then have "lc a c \<le> 0" using assms(3) by (rule lc_trans [OF assms(1)])
  ultimately have "lc a c = 0" by simp
  then have "lc c a \<le> 0" using assms(1) by (simp add: lc_zero_sym)
  with assms(3) have "lc b a \<le> 0" by (rule lc_trans [OF assms(1)])
  moreover from assms(1,2) have "0 < lc b a" by (simp add: consistent_def)
  ultimately show False by simp
qed

lemma lc_strict_trans2:
  assumes "consistent lc" and "lc a b \<le> 0" and "lc b c < 0"
  shows "lc a c < 0"
proof (rule ccontr)
  assume "\<not> lc a c < 0"
  moreover from assms(3) have bc: "lc b c \<le> 0" by simp
  with assms(2) have "lc a c \<le> 0" by (rule lc_trans [OF assms(1)])
  ultimately have "lc a c = 0" by simp
  then have "lc c a \<le> 0" using assms(1) by (simp add: lc_zero_sym)
  from assms(1) this assms(2) have "lc c b \<le> 0" by (rule lc_trans)
  moreover from assms(1,3) have "0 < lc c b" by (simp add: consistent_def)
  ultimately show False by simp
qed

lemma categoryNameLe_trans:
  assumes "consistent lc" and "categoryNameLe lc a b" and "categoryNameLe lc b c"
  shows "categoryNameLe lc a c"
proof -
  let ?A = "toString (b_category a)" and ?B = "toString (b_category b)"
    and ?C = "toString (b_category c)"
  consider (lt1) "lc ?A ?B < 0" "lc ?B ?C \<le> 0"
    | (lt2) "lc ?A ?B \<le> 0" "lc ?B ?C < 0"
    | (eq) "lc ?A ?B = 0" "lc ?B ?C = 0" "lc (b_name a) (b_name b) \<le> 0" "lc (b_name b) (b_name c) \<le> 0"
    using assms(2,3) unfolding categoryNameLe_def by linarith
  then show ?thesis
  proof cases
    case lt1
    have "lc ?A ?C < 0" using assms(1) lt1 by (rule lc_strict_trans1)
    then show ?thesis by (simp add: categoryNameLe_def)
  next
    case lt2
    have "lc ?A ?C < 0" using assms(1) lt2 by (rule lc_strict_trans2)
    then show ?thesis by (simp add: categoryNameLe_def)
  next
    case eq
    from eq(1,2) have ab: "lc ?A ?B \<le> 0" and bc: "lc ?B ?C \<le> 0" by simp_all
    have ba: "lc ?B ?A \<le> 0" using lc_zero_sym [OF assms(1) eq(1)] by simp
    have cb: "lc ?C ?B \<le> 0" using lc_zero_sym [OF assms(1) eq(2)] by simp
    have ac: "lc ?A ?C \<le> 0" using assms(1) ab bc by (rule lc_trans)
    have ca: "lc ?C ?A \<le> 0" using assms(1) cb ba by (rule lc_trans)
    from assms(1) have "(lc ?A ?C < 0) = (0 < lc ?C ?A)" by (simp add: consistent_def)
    with ac ca have "lc ?A ?C = 0" by simp
    moreover have "lc (b_name a) (b_name c) \<le> 0"
      using assms(1) eq(3,4) by (rule lc_trans)
    ultimately show ?thesis by (simp add: categoryNameLe_def)
  qed
qed

lemma compareBusinesses_sound:
  assumes "consistent lc" and "compareBusinesses lc a b = Inr c"
  shows "if c < 0 then categoryNameLe lc a b else categoryNameLe lc b a"
proof -
  from assms(2) obtain s where s: "b_category a = Str s"
    by (cases "b_category a") (auto simp: compareBusinesses_def)
  let ?A = "toString (b_category a)" and ?B = "toString (b_category b)"
  have c: "c = (if lc ?A ?B \<noteq> 0 then lc ?A ?B else lc (b_name a) (b_name b))"
    using assms(2) by (auto simp: compareBusinesses_def s toString_def Let_def split: if_splits)
  from assms(1) have sym: "\<And>x y. (lc x y < 0) = (0 < lc y x)"
    by (simp add: consistent_def)
  show ?thesis
  proof (cases "lc ?A ?B = 0")
    case True
    then have "lc ?B ?A = 0" using assms(1) by (simp add: lc_zero_sym)
    with True c sym [of "b_name b" "b_name a"] sym [of "b_name a" "b_name b"] show ?thesis
      by (auto simp: categoryNameLe_def)
  next
    case False
    with c sym [of ?B ?A] sym [of ?A ?B] show ?thesis
      by (auto simp: categoryNameLe_def)
  qed
qed

lemma compareBusinesses_total:
  assumes "b_category a = Str s"
  shows "\<exists>c. compareBusinesses lc a b = Inr c"
  using assms by (simp add: compareBusinesses_def Let_def)

lemma sortBusinesses_sorted:
  assumes "consistent lc" and "sortWith (compareBusinesses lc) xs = Inr ys"
  shows "sorted_wrt (categoryNameLe lc) ys"
proof (rule sortWith_sorted [where cmp = "compareBusinesses lc" and xs = xs])
  show "categoryNameLe lc a c" if "categoryNameLe lc a b" and "categoryNameLe lc b c" for a b c
    using assms(1) that by (rule categoryNameLe_trans)
  show "if c < 0 then categoryNameLe lc a b else categoryNameLe lc b a"
    if "compareBusinesses lc a b = Inr c" for a b c
    using assms(1) that by (rule compareBusinesses_sound)
  show "sortWith (compareBusinesses lc) xs = Inr ys" by (rule assms(2))
qed

lemma sortBusinesses_strings:
  assumes "consistent lc" and "\<forall>b \<in> set xs. \<exists>s. b_category b = Str s"
  shows "\<exists>ys. sortWith (compareBusinesses lc) xs = Inr ys
    \<and> sorted_wrt (categoryNameLe lc) ys \<and> mset ys = mset xs"
proof -
  from assms(2) have "\<forall>x \<in> set xs. \<forall>y \<in> set xs. \<exists>c. compareBusinesses lc x y = Inr c"
    using compareBusinesses_total by blast
  then obtain ys where ys: "sortWith (compareBusinesses lc) xs = Inr ys"
    using sortWith_total by blast
  with assms(1) have "sorted_wrt (categoryNameLe lc) ys" by (rule sortBusinesses_sorted)
  with ys sortWith_mset [OF ys] show ?thesis by simp
qed

lemma fetchBusinessesForTown_strings:
  assumes "consistent lc"
    and "\<forall>b \<in> set (collectBusinesses (t_displayName town) els). \<exists>s. b_category b = Str s"
  shows "\<exists>bs. fetchBusinessesForTown lc town \<lparr>elements = Some els\<rparr> = Inr bs
    \<and> sorted_wrt (categoryNameLe lc) bs
    \<and> mset bs = mset (collectBusinesses (t_displayName town) els)"
  using sortBusinesses_strings [OF assms] by (simp add: fetchBusinessesForTown_def)

text \<open>
  Let \<^verbatim>\<open>localeCompare\<close> be a consistent comparator. For every response, a list of
  businesses that the pipeline returns is sorted by category and, where the categories
  compare equal, by name, a category that is not a string read as the string that
  \<^verbatim>\<open>localeCompare\<close> makes of it: every record is less than or equal to every later one,
  and so to the next one. The list is a permutation of the deduplicated records. The
  pipeline does return a list whenever every category is a string.
\<close>

lemma fetchBusinessesForTown_returned:
  assumes "consistent lc"
  shows "(fetchBusinessesForTown lc town data = Inr bs \<longrightarrow>
            sorted_wrt (categoryNameLe lc) bs
            \<and> (\<forall>i. Suc i < length bs \<longrightarrow> categoryNameLe lc (bs ! i) (bs ! Suc i))
            \<and> (\<forall>els. elements data = Some els \<longrightarrow>
                  mset bs = mset (collectBusinesses (t_displayName town) els)))
       \<and> ((\<forall>els. elements data = Some els \<longrightarrow>
              (\<forall>b \<in> set (collectBusinesses (t_displayName town) els). \<exists>s. b_category b = Str s))
            \<longrightarrow> (\<exists>out. fetchBusinessesForTown lc town data = Inr out))"
proof (intro conjI impI allI)
  assume r: "fetchBusinessesForTown lc town data = Inr bs"
  show s: "sorted_wrt (categoryNameLe lc) bs"
  proof (cases "elements data")
    case None
    with r show ?thesis by (simp add: fetchBusinessesForTown_def)
  next
    case (Some els)
    with r have "sortWith (compareBusinesses lc) (collectBusinesses (t_displayName town) els) = Inr bs"
      by (simp add: fetchBusinessesForTown_def)
    with assms show ?thesis by (rule sortBusinesses_sorted)
  qed
  show "categoryNameLe lc (bs ! i) (bs ! Suc i)" if "Suc i < length bs" for i
    using s that by (rule sorted_wrt_adjacent)
  show "mset bs = mset (collectBusinesses (t_displayName town) els)"
    if "elements data = Some els" for els
    using r that by (simp add: fetchBusinessesForTown_def sortWith_mset)
next
  assume a: "\<forall>els. elements data = Some els \<longrightarrow>
    (\<forall>b \<in> set (collectBusinesses (t_displayName town) els). \<exists>s. b_category b = Str s)"
  show "\<exists>out. fetchBusinessesForTown lc town data = Inr out"
  proof (cases "elements data")
    case None
    then show ?thesis by (simp add: fetchBusinessesForTown_def)
  next
    case (Some els)
    with a have "\<forall>x \<in> set (collectBusinesses (t_displayName town) els).
        \<forall>y \<in> set (collectBusinesses (t_displayName town) els).
          \<exists>c. compareBusinesses lc x y = Inr c"
      using compareBusinesses_total by blast
    then have "\<exists>ys. sortWith (compareBusinesses lc) (collectBusinesses (t_displayName town) els) = Inr ys"
      by (rule sortWith_total)
    with Some show ?thesis by (simp add: fetchBusinessesForTown_def)
  qed
qed

lemma fetchBusinessesForTown_returned_example:
  "fetchBusinessesForTown codeUnitCompare exampleTown
      \<lparr>elements = Some
        [node 1 [(''name'', ''Zed''), (''shop'', ''deli'')],
         node 2 [(''name'', ''Bob''), (''shop'', ''deli'')],
         node 3 [(''name'', ''Al''), (''amenity'', ''bank'')]]\<rparr>
     = Inr [toBusiness ''Trenton'' (map_of [(''name'', ''Al''), (''amenity'', ''bank'')]),
            toBusiness ''Trenton'' (map_of [(''name'', ''Bob''), (''shop'', ''deli'')]),
            toBusiness ''Trenton'' (map_of [(''name'', ''Zed''), (''shop'', ''deli'')])]
   \<and> sorted_wrt (categoryNameLe codeUnitCompare)
        [toBusiness ''Trenton'' (map_of [(''name'', ''Al''), (''amenity'', ''bank'')]),
         toBusiness ''Trenton'' (map_of [(''name'', ''Bob''), (''shop'', ''deli'')]),
         toBusiness ''Trenton'' (map_of [(''name'', ''Zed''), (''shop'', ''deli'')])]
   \<and> (\<exists>out. fetchBusinessesForTown codeUnitCompare exampleTown
        \<lparr>elements = Some
          [node 1 [(''name'', ''Zed''), (''shop'', ''deli'')],
           node 3 [(''name'', ''Al''), (''amenity'', ''bank'')]]\<rparr> = Inr out)"
proof -
  let ?data = "\<lparr>elements = Some
        [node 1 [(''name'', ''Zed''), (''shop'', ''deli'')],
         node 2 [(''name'', ''Bob''), (''shop'', ''deli'')],
         node 3 [(''name'', ''Al''), (''amenity'', ''bank'')]]\<rparr>"
  let ?bs = "[toBusiness ''Trenton'' (map_of [(''name'', ''Al''), (''amenity'', ''bank'')]),
            toBusiness ''Trenton'' (map_of [(''name'', ''Bob''), (''shop'', ''deli'')]),
            toBusiness ''Trenton'' (map_of [(''name'', ''Zed''), (''shop'', ''deli'')])]"
  have r: "fetchBusinessesForTown codeUnitCompare exampleTown ?data = Inr ?bs"
    by code_simp
  from fetchBusinessesForTown_returned [OF consistent_codeUnitCompare,
      where town = exampleTown and data = ?data and bs = ?bs] r
  have s: "sorted_wrt (categoryNameLe codeUnitCompare) ?bs" by blast
  let ?els = "[node 1 [(''name'', ''Zed''), (''shop'', ''deli'')],
           node 3 [(''name'', ''Al''), (''amenity'', ''bank'')]]"
  have c: "collectBusinesses ''Trenton'' ?els =
      [toBusiness ''Trenton'' (map_of [(''name'', ''Zed''), (''shop'', ''deli'')]),
       toBusiness ''Trenton'' (map_of [(''name'', ''Al''), (''amenity'', ''bank'')])]"
    by code_simp
  have g1: "getCategory [''shop'' \<mapsto> ''deli'', ''name'' \<mapsto> ''Zed''] = Str ''Deli''"
    and g2: "getCategory [''amenity'' \<mapsto> ''bank'', ''name'' \<mapsto> ''Al''] = Str ''Bank''"
    by code_simp+
  have strings: "\<forall>els. elements \<lparr>elements = Some ?els\<rparr> = Some els \<longrightarrow>
      (\<forall>b \<in> set (collectBusinesses (t_displayName exampleTown) els). \<exists>s. b_category b = Str s)"
    by (simp add: exampleTown_def c toBusiness_def g1 g2)
  from fetchBusinessesForTown_returned [OF consistent_codeUnitCompare,
      where town = exampleTown and data = "\<lparr>elements = Some ?els\<rparr>" and bs = "[]"] strings
  have "\<exists>out. fetchBusinessesForTown codeUnitCompare exampleTown \<lparr>elements = Some ?els\<rparr> = Inr out"
    by blast
  with r s show ?thesis by simp
qed

text \<open>
  C7. The pipeline does not return a sorted list for every list of raw elements. For
  the value \<^verbatim>\<open>constructor\<close> the classifier returns the member that every object
  inherits from \<^verbatim>\<open>Object.prototype\<close>, which is not a string. The sort calls the
  comparator with the later record as \<^verbatim>\<open>a\<close>, and \<^verbatim>\<open>a.category.localeCompare\<close> is then
  not a function: for the two elements \<^verbatim>\<open>{name: "Al", shop: "deli"}\<close> and
  \<^verbatim>\<open>{name: "Bob", shop: "constructor"}\<close>, in this order and whatever \<^verbatim>\<open>localeCompare\<close>
  is, the pipeline raises a \<^verbatim>\<open>TypeError\<close> and returns no list. With the two elements in
  the other order the comparator is called with the record of Al as \<^verbatim>\<open>a\<close>, and the
  pipeline returns a list with a record whose category is not a string.
\<close>

theorem fetchBusinessesForTown_raises:
  "getCategory (map_of [(''name'', ''Bob''), (''shop'', ''constructor'')]) = Builtin ''constructor''
   \<and> fetchBusinessesForTown lc exampleTown
      \<lparr>elements = Some
        [node 1 [(''name'', ''Al''), (''shop'', ''deli'')],
         node 2 [(''name'', ''Bob''), (''shop'', ''constructor'')]]\<rparr>
     = Inl (TypeError ''a.category.localeCompare is not a function'')
   \<and> fetchBusinessesForTown codeUnitCompare exampleTown
      \<lparr>elements = Some
        [node 2 [(''name'', ''Bob''), (''shop'', ''constructor'')],
         node 1 [(''name'', ''Al''), (''shop'', ''deli'')]]\<rparr>
     = Inr [toBusiness ''Trenton'' (map_of [(''name'', ''Al''), (''shop'', ''deli'')]),
            toBusiness ''Trenton'' (map_of [(''name'', ''Bob''), (''shop'', ''constructor'')])]"
proof -
  have g: "getCategory (map_of [(''name'', ''Bob''), (''shop'', ''constructor'')]) = Builtin ''constructor''"
    by code_simp
  have c: "collectBusinesses ''Trenton''
        [node 1 [(''name'', ''Al''), (''shop'', ''deli'')],
         node 2 [(''name'', ''Bob''), (''shop'', ''constructor'')]]
      = [toBusiness ''Trenton'' (map_of [(''name'', ''Al''), (''shop'', ''deli'')]),
         toBusiness ''Trenton'' (map_of [(''name'', ''Bob''), (''shop'', ''constructor'')])]"
    by code_simp
  have k: "compareBusinesses lc
        (toBusiness ''Trenton'' (map_of [(''name'', ''Bob''), (''shop'', ''constructor'')])) b
      = Inl (TypeError ''a.category.localeCompare is not a function'')" for b
    unfolding compareBusinesses_def toBusiness_def using g by simp
  have raises: "fetchBusinessesForTown lc exampleTown
      \<lparr>elements = Some
        [node 1 [(''name'', ''Al''), (''shop'', ''deli'')],
         node 2 [(''name'', ''Bob''), (''shop'', ''constructor'')]]\<rparr>
     = Inl (TypeError ''a.category.localeCompare is not a function'')"
    unfolding fetchBusinessesForTown_def
    by (simp only: g c k exampleTown_def sortWith_def sortInto.simps insertSorted.simps
        response.simps town.simps option.case sum.case simp_thms)
  have returns: "fetchBusinessesForTown codeUnitCompare exampleTown
      \<lparr>elements = Some
        [node 2 [(''name'', ''Bob''), (''shop'', ''constructor'')],
         node 1 [(''name'', ''Al''), (''shop'', ''deli'')]]\<rparr>
     = Inr [toBusiness ''Trenton'' (map_of [(''name'', ''Al''), (''shop'', ''deli'')]),
            toBusiness ''Trenton'' (map_of [(''name'', ''Bob''), (''shop'', ''constructor'')])]"
    by code_simp
  from g raises returns show ?thesis by (intro conjI)
qed

section \<open>Properties of the deduplication\<close>

lemma dedupBusinesses_snoc:
  "dedupBusinesses (bs @ [b]) =
     dedupBusinesses bs @ (if nameAddress b \<in> nameAddress ` set bs then [] else [b])"
proof -
  let ?q = "\<lambda>business b. b_name b = b_name business \<and> b_address b = b_address business"
  have "(\<exists>x \<in> set bs. ?q b x) \<longleftrightarrow> nameAddress b \<in> nameAddress ` set bs"
    by (simp add: nameAddress_def image_iff) metis
  then show ?thesis
    unfolding dedupBusinesses_def
    using filterIndexed_first_snoc [of ?q bs b] by simp
qed

lemma dedupBusinesses_Nil: "dedupBusinesses [] = []"
  by (simp add: dedupBusinesses_def filterIndexed_def)

lemma dedupBusinesses_keys: "nameAddress ` set (dedupBusinesses bs) = nameAddress ` set bs"
  by (induction bs rule: rev_induct) (auto simp: dedupBusinesses_Nil dedupBusinesses_snoc)

lemma dedupBusinesses_distinct: "distinct (map nameAddress (dedupBusinesses bs))"
proof (induction bs rule: rev_induct)
  case Nil
  then show ?case by (simp add: dedupBusinesses_Nil)
next
  case (snoc b bs)
  then show ?case
    using dedupBusinesses_keys [of bs] by (auto simp: dedupBusinesses_snoc)
qed

lemma dedupBusinesses_subseq: "subseq (dedupBusinesses bs) bs"
proof (induction bs rule: rev_induct)
  case Nil
  then show ?case by (simp add: dedupBusinesses_Nil)
next
  case (snoc b bs)
  show ?case
  proof (cases "nameAddress b \<in> nameAddress ` set bs")
    case True
    with snoc show ?thesis
      by (simp add: dedupBusinesses_snoc subseq_rev_drop_many)
  next
    case False
    with snoc show ?thesis
      by (simp add: dedupBusinesses_snoc)
  qed
qed

lemma dedupBusinesses_first:
  assumes "b \<in> set (dedupBusinesses bs)"
  shows "find (\<lambda>x. nameAddress x = nameAddress b) bs = Some b"
  using assms
proof (induction bs rule: rev_induct)
  case Nil
  then show ?case by (simp add: dedupBusinesses_Nil)
next
  case (snoc y bs)
  show ?case
  proof (cases "b \<in> set (dedupBusinesses bs)")
    case True
    then have "find (\<lambda>x. nameAddress x = nameAddress b) bs = Some b" by (rule snoc.IH)
    then show ?thesis by (simp add: find_snoc)
  next
    case False
    with snoc.prems have y: "b = y" and new: "nameAddress y \<notin> nameAddress ` set bs"
      by (auto simp: dedupBusinesses_snoc split: if_splits)
    from new have "find (\<lambda>x. nameAddress x = nameAddress y) bs = None"
      unfolding find_None_iff by (metis imageI)
    then show ?thesis by (simp add: find_snoc y)
  qed
qed

lemma dedupBusinesses_two:
  "dedupBusinesses [a, b] = (if nameAddress a = nameAddress b then [a] else [a, b])"
proof -
  have one: "dedupBusinesses [a] = [a]"
    using dedupBusinesses_snoc [of "[]" a] by (simp add: dedupBusinesses_Nil)
  show ?thesis
    using dedupBusinesses_snoc [of "[a]" b] by (auto simp: one)
qed

lemma named_two:
  assumes "el_tags e1 = Some t1" and "hasValue t1 ''name''"
    and "el_tags e2 = Some t2" and "hasValue t2 ''name''"
  shows "named [e1, e2] = [(e1, t1), (e2, t2)]"
  using assms by (simp add: named_def List.map_filter_simps)

lemma collectBusinesses_two:
  assumes "el_tags e1 = Some t1" and "hasValue t1 ''name''" and "inRegion t1"
    and "el_tags e2 = Some t2" and "hasValue t2 ''name''" and "inRegion t2"
  shows "collectBusinesses d [e1, e2] =
    (if nameAddress (toBusiness d t1) = nameAddress (toBusiness d t2) then [toBusiness d t1]
     else [toBusiness d t1, toBusiness d t2])"
  using assms named_two [of e1 t1 e2 t2]
  by (simp add: collectBusinesses_def dedupBusinesses_two)

text \<open>
  C6. The deduplication keys on name and address. For every list of mapped records:
  the records kept have pairwise different keys; every key of the list is the key of a
  record kept; the records kept stand in the order they had; and each record kept is
  the first record of the list with its key, so every later record with that key is
  dropped. Two elements that pass the filters and whose records have the same name and
  the same address give exactly one record, that of the first element, after the
  deduplication and at the end of the pipeline; two whose records have the same name
  and different addresses give two records after the deduplication, a list that the
  pipeline returns has two records, and the pipeline does return one when the
  categories of both are strings.
\<close>

theorem dedupBusinesses_first_occurrence:
  "distinct (map nameAddress (dedupBusinesses bs))
   \<and> nameAddress ` set (dedupBusinesses bs) = nameAddress ` set bs
   \<and> subseq (dedupBusinesses bs) bs
   \<and> (\<forall>b \<in> set (dedupBusinesses bs). find (\<lambda>x. nameAddress x = nameAddress b) bs = Some b)
   \<and> (el_tags e1 = Some t1 \<and> hasValue t1 ''name'' \<and> inRegion t1
        \<and> el_tags e2 = Some t2 \<and> hasValue t2 ''name'' \<and> inRegion t2 \<longrightarrow>
      (b_name (toBusiness d t1) = b_name (toBusiness d t2)
        \<and> b_address (toBusiness d t1) = b_address (toBusiness d t2) \<longrightarrow>
          collectBusinesses d [e1, e2] = [toBusiness d t1]
          \<and> fetchBusinessesForTown lc (town\<lparr>t_displayName := d\<rparr>) \<lparr>elements = Some [e1, e2]\<rparr>
              = Inr [toBusiness d t1])
      \<and> (b_name (toBusiness d t1) = b_name (toBusiness d t2)
        \<and> b_address (toBusiness d t1) \<noteq> b_address (toBusiness d t2) \<longrightarrow>
          collectBusinesses d [e1, e2] = [toBusiness d t1, toBusiness d t2]
          \<and> (\<forall>out. fetchBusinessesForTown lc (town\<lparr>t_displayName := d\<rparr>)
                      \<lparr>elements = Some [e1, e2]\<rparr> = Inr out \<longrightarrow> length out = 2)
          \<and> ((\<exists>s. getCategory t1 = Str s) \<and> (\<exists>s. getCategory t2 = Str s) \<longrightarrow>
                (\<exists>out. fetchBusinessesForTown lc (town\<lparr>t_displayName := d\<rparr>)
                      \<lparr>elements = Some [e1, e2]\<rparr> = Inr out \<and> length out = 2))))"
proof (intro conjI impI allI ballI)
  show "distinct (map nameAddress (dedupBusinesses bs))"
    by (rule dedupBusinesses_distinct)
  show "nameAddress ` set (dedupBusinesses bs) = nameAddress ` set bs"
    by (rule dedupBusinesses_keys)
  show "subseq (dedupBusinesses bs) bs"
    by (rule dedupBusinesses_subseq)
  show "find (\<lambda>x. nameAddress x = nameAddress b) bs = Some b"
    if "b \<in> set (dedupBusinesses bs)" for b
    using that by (rule dedupBusinesses_first)
next
  assume e: "el_tags e1 = Some t1 \<and> hasValue t1 ''name'' \<and> inRegion t1
        \<and> el_tags e2 = Some t2 \<and> hasValue t2 ''name'' \<and> inRegion t2"
  then have c: "collectBusinesses d [e1, e2] =
    (if nameAddress (toBusiness d t1) = nameAddress (toBusiness d t2) then [toBusiness d t1]
     else [toBusiness d t1, toBusiness d t2])"
    using collectBusinesses_two [of e1 t1 e2 t2 d] by simp
  {
    assume same: "b_name (toBusiness d t1) = b_name (toBusiness d t2)
        \<and> b_address (toBusiness d t1) = b_address (toBusiness d t2)"
    with c show c1: "collectBusinesses d [e1, e2] = [toBusiness d t1]"
      by (simp add: nameAddress_def)
    then show "fetchBusinessesForTown lc (town\<lparr>t_displayName := d\<rparr>) \<lparr>elements = Some [e1, e2]\<rparr>
              = Inr [toBusiness d t1]"
      by (simp add: fetchBusinessesForTown_def sortWith_single)
  }
  {
    assume diff: "b_name (toBusiness d t1) = b_name (toBusiness d t2)
        \<and> b_address (toBusiness d t1) \<noteq> b_address (toBusiness d t2)"
    with c show c2: "collectBusinesses d [e1, e2] = [toBusiness d t1, toBusiness d t2]"
      by (simp add: nameAddress_def)
    have two: "length out = 2"
      if "fetchBusinessesForTown lc (town\<lparr>t_displayName := d\<rparr>)
                      \<lparr>elements = Some [e1, e2]\<rparr> = Inr out" for out
    proof -
      from that have "sortWith (compareBusinesses lc) [toBusiness d t1, toBusiness d t2] = Inr out"
        by (simp add: fetchBusinessesForTown_def c2)
      then have "mset out = mset [toBusiness d t1, toBusiness d t2]"
        by (rule sortWith_mset)
      then have "size (mset out) = 2" by simp
      then show ?thesis by simp
    qed
    show "length out = 2"
      if "fetchBusinessesForTown lc (town\<lparr>t_displayName := d\<rparr>)
                      \<lparr>elements = Some [e1, e2]\<rparr> = Inr out" for out
      using that by (rule two)
    {
      assume "(\<exists>s. getCategory t1 = Str s) \<and> (\<exists>s. getCategory t2 = Str s)"
      then have "\<forall>x \<in> set [toBusiness d t1, toBusiness d t2]. \<exists>s. b_category x = Str s"
        by (auto simp: toBusiness_def)
      then have "\<forall>x \<in> set [toBusiness d t1, toBusiness d t2].
          \<forall>y \<in> set [toBusiness d t1, toBusiness d t2]. \<exists>k. compareBusinesses lc x y = Inr k"
        using compareBusinesses_total by blast
      then obtain out where
        "sortWith (compareBusinesses lc) [toBusiness d t1, toBusiness d t2] = Inr out"
        using sortWith_total by blast
      then have o: "fetchBusinessesForTown lc (town\<lparr>t_displayName := d\<rparr>)
                      \<lparr>elements = Some [e1, e2]\<rparr> = Inr out"
        by (simp add: fetchBusinessesForTown_def c2)
      with two [OF o] show "\<exists>out. fetchBusinessesForTown lc (town\<lparr>t_displayName := d\<rparr>)
                      \<lparr>elements = Some [e1, e2]\<rparr> = Inr out \<and> length out = 2"
        by blast
    }
  }
qed

theorem dedupBusinesses_first_occurrence_witness:
  "collectBusinesses ''Trenton''
      [node 1 [(''name'', ''Joe's Deli''), (''shop'', ''deli'')],
       node 2 [(''name'', ''Joe's Deli''), (''amenity'', ''cafe'')]]
     = [toBusiness ''Trenton'' (map_of [(''name'', ''Joe's Deli''), (''shop'', ''deli'')])]
   \<and> collectBusinesses ''Trenton''
      [node 1 [(''name'', ''Joe's Deli''), (''shop'', ''deli'')],
       node 3 [(''name'', ''Joe's Deli''), (''shop'', ''deli''), (''addr:street'', ''Broad St'')]]
     = [toBusiness ''Trenton'' (map_of [(''name'', ''Joe's Deli''), (''shop'', ''deli'')]),
        toBusiness ''Trenton''
          (map_of [(''name'', ''Joe's Deli''), (''shop'', ''deli''), (''addr:street'', ''Broad St'')])]
   \<and> distinct (map nameAddress (dedupBusinesses
        [toBusiness ''Trenton'' (map_of [(''name'', ''Joe's Deli''), (''shop'', ''deli'')]),
         toBusiness ''Trenton'' (map_of [(''name'', ''Joe's Deli''), (''amenity'', ''cafe'')])]))
   \<and> find (\<lambda>x. nameAddress x =
          nameAddress (toBusiness ''Trenton'' (map_of [(''name'', ''Joe's Deli''), (''shop'', ''deli'')])))
        [toBusiness ''Trenton'' (map_of [(''name'', ''Joe's Deli''), (''shop'', ''deli'')]),
         toBusiness ''Trenton'' (map_of [(''name'', ''Joe's Deli''), (''amenity'', ''cafe'')])]
       = Some (toBusiness ''Trenton'' (map_of [(''name'', ''Joe's Deli''), (''shop'', ''deli'')]))
   \<and> (\<exists>out. fetchBusinessesForTown codeUnitCompare exampleTown
        \<lparr>elements = Some
          [node 1 [(''name'', ''Joe's Deli''), (''shop'', ''deli'')],
           node 3 [(''name'', ''Joe's Deli''), (''shop'', ''deli''), (''addr:street'', ''Broad St'')]]\<rparr>
        = Inr out \<and> length out = 2)"
proof -
  let ?t1 = "map_of [(''name'', ''Joe's Deli''), (''shop'', ''deli'')]"
  let ?t2 = "map_of [(''name'', ''Joe's Deli''), (''amenity'', ''cafe'')]"
  let ?t3 = "map_of [(''name'', ''Joe's Deli''), (''shop'', ''deli''), (''addr:street'', ''Broad St'')]"
  note d = dedupBusinesses_first_occurrence
    [where bs = "[toBusiness ''Trenton'' ?t1, toBusiness ''Trenton'' ?t2]"
       and lc = codeUnitCompare and town = exampleTown and d = "''Trenton''"
       and ?e1.0 = "node 1 [(''name'', ''Joe's Deli''), (''shop'', ''deli'')]" and ?t1.0 = ?t1]
  have n1: "b_name (toBusiness ''Trenton'' ?t1) = ''Joe's Deli''"
    and n2: "b_name (toBusiness ''Trenton'' ?t2) = ''Joe's Deli''"
    and n3: "b_name (toBusiness ''Trenton'' ?t3) = ''Joe's Deli''"
    by (simp_all add: toBusiness_def tagValue_def)
  have a1: "b_address (toBusiness ''Trenton'' ?t1) = ''Trenton, NJ''"
    and a2: "b_address (toBusiness ''Trenton'' ?t2) = ''Trenton, NJ''"
    and a3: "b_address (toBusiness ''Trenton'' ?t3) = ''Broad St, Trenton, NJ''"
    by (simp_all add: toBusiness_def address_eq hasValue_def tagValue_def)
  have h: "hasValue ?t1 ''name'' \<and> inRegion ?t1 \<and> hasValue ?t2 ''name'' \<and> inRegion ?t2
      \<and> hasValue ?t3 ''name'' \<and> inRegion ?t3"
    by (simp add: hasValue_def inRegion_def)
  have "collectBusinesses ''Trenton''
      [node 1 [(''name'', ''Joe's Deli''), (''shop'', ''deli'')],
       node 2 [(''name'', ''Joe's Deli''), (''amenity'', ''cafe'')]]
     = [toBusiness ''Trenton'' ?t1]"
    using d [where ?e2.0 = "node 2 [(''name'', ''Joe's Deli''), (''amenity'', ''cafe'')]" and ?t2.0 = ?t2]
      h n1 n2 a1 a2
    by (simp add: node_def)
  moreover have "collectBusinesses ''Trenton''
      [node 1 [(''name'', ''Joe's Deli''), (''shop'', ''deli'')],
       node 3 [(''name'', ''Joe's Deli''), (''shop'', ''deli''), (''addr:street'', ''Broad St'')]]
     = [toBusiness ''Trenton'' ?t1, toBusiness ''Trenton'' ?t3]"
    using d [where ?e2.0 = "node 3 [(''name'', ''Joe's Deli''), (''shop'', ''deli''),
        (''addr:street'', ''Broad St'')]" and ?t2.0 = ?t3]
      h n1 n3 a1 a3
    by (simp add: node_def)
  moreover have "distinct (map nameAddress (dedupBusinesses
        [toBusiness ''Trenton'' ?t1, toBusiness ''Trenton'' ?t2]))"
    using d [where ?e2.0 = "node 2 []" and ?t2.0 = ?t2] by blast
  moreover have "dedupBusinesses [toBusiness ''Trenton'' ?t1, toBusiness ''Trenton'' ?t2]
      = [toBusiness ''Trenton'' ?t1]"
    by (simp only: dedupBusinesses_two nameAddress_def n1 n2 a1 a2 simp_thms if_True)
  then have "find (\<lambda>x. nameAddress x = nameAddress (toBusiness ''Trenton'' ?t1))
        [toBusiness ''Trenton'' ?t1, toBusiness ''Trenton'' ?t2]
       = Some (toBusiness ''Trenton'' ?t1)"
    using d [where ?e2.0 = "node 2 []" and ?t2.0 = ?t2] by simp
  moreover have "\<exists>out. fetchBusinessesForTown codeUnitCompare exampleTown
        \<lparr>elements = Some
          [node 1 [(''name'', ''Joe's Deli''), (''shop'', ''deli'')],
           node 3 [(''name'', ''Joe's Deli''), (''shop'', ''deli''), (''addr:street'', ''Broad St'')]]\<rparr>
        = Inr out \<and> length out = 2"
  proof -
    have g1: "getCategory ?t1 = Str ''Deli''" and g3: "getCategory ?t3 = Str ''Deli''"
      by code_simp+
    have t: "exampleTown\<lparr>t_displayName := ''Trenton''\<rparr> = exampleTown"
      by (simp add: exampleTown_def)
    from d [where ?e2.0 = "node 3 [(''name'', ''Joe's Deli''), (''shop'', ''deli''),
        (''addr:street'', ''Broad St'')]" and ?t2.0 = ?t3]
      h n1 n3 a1 a3 g1 g3
    show ?thesis
      unfolding t by (simp add: node_def)
  qed
  ultimately show ?thesis by simp
qed

section \<open>Properties of the handling of empty responses\<close>

lemma compareTowns_total: "\<exists>c. compareTowns lc a b = Inr c"
  by (simp add: compareTowns_def)

lemma sortTowns_total: "\<exists>ts. sortWith (compareTowns lc) xs = Inr ts"
  by (rule sortWith_total) (simp add: compareTowns_def)

text \<open>
  C8. For every parsed response, town-list discovery ends in an error exactly when the
  response has no elements, none at all or an empty list; the error is
  \<^verbatim>\<open>Error('No towns found in NJ')\<close>. Per-town extraction returns the empty list of
  businesses, and no error, on such a response.
\<close>

theorem empty_elements:
  "(isl (fetchNJTownsList lc parseInt data) \<longleftrightarrow>
      elements data = None \<or> elements data = Some [])
   \<and> (elements data = None \<or> elements data = Some [] \<longrightarrow>
        fetchNJTownsList lc parseInt data = Inl (Error ''No towns found in NJ'')
        \<and> fetchBusinessesForTown lc town data = Inr [])"
proof (cases "elements data")
  case None
  then show ?thesis
    by (simp add: fetchNJTownsList_def fetchBusinessesForTown_def)
next
  case (Some els)
  show ?thesis
  proof (cases els)
    case Nil
    with Some show ?thesis
      by (simp add: fetchNJTownsList_def fetchBusinessesForTown_def collectBusinesses_def
          named_def dedupBusinesses_def filterIndexed_def List.map_filter_simps sortWith_Nil)
  next
    case (Cons e es)
    obtain ts where "sortWith (compareTowns lc) (dedupTowns (map (toTown parseInt) (named els))) = Inr ts"
      using sortTowns_total by blast
    with Some Cons show ?thesis
      by (simp add: fetchNJTownsList_def)
  qed
qed

theorem empty_elements_witness:
  "fetchNJTownsList codeUnitCompare (\<lambda>s. 0 :: nat) \<lparr>elements = Some []\<rparr>
     = Inl (Error ''No towns found in NJ'')
   \<and> fetchNJTownsList codeUnitCompare (\<lambda>s. 0 :: nat) \<lparr>elements = None\<rparr>
     = Inl (Error ''No towns found in NJ'')
   \<and> fetchBusinessesForTown codeUnitCompare exampleTown \<lparr>elements = Some []\<rparr> = Inr []
   \<and> fetchBusinessesForTown codeUnitCompare exampleTown \<lparr>elements = None\<rparr> = Inr []"
  using empty_elements [where lc = codeUnitCompare and parseInt = "\<lambda>s. 0 :: nat"
      and town = exampleTown and data = "\<lparr>elements = Some []\<rparr>"]
    empty_elements [where lc = codeUnitCompare and parseInt = "\<lambda>s. 0 :: nat"
      and town = exampleTown and data = "\<lparr>elements = None\<rparr>"]
  by simp

section \<open>Properties of the batch orchestrator\<close>

lemma batchLoop_append:
  "batchLoop lc world i (xs @ ys) c =
     batchLoop lc world (i + length xs) ys (batchLoop lc world i xs c)"
  by (induction xs arbitrary: i c) simp_all

lemma mainLoop_flat:
  "mainLoop lc world towns i c = batchLoop lc world i (drop i towns) c"
proof (induction lc world towns i c rule: mainLoop.induct)
  case (1 lc world towns i c)
  show ?case
  proof (cases "i < length towns")
    case False
    then show ?thesis by (simp add: mainLoop.simps [of lc world towns i c])
  next
    case True
    let ?batch = "take BATCH_SIZE (drop i towns)"
    let ?rest = "drop (i + BATCH_SIZE) towns"
    let ?c = "batchLoop lc world i ?batch c"
    have "?rest = drop BATCH_SIZE (drop i towns)"
      by (simp add: add.commute)
    then have split: "?batch @ ?rest = drop i towns"
      by (simp only: append_take_drop_id)
    have "mainLoop lc world towns i c = mainLoop lc world towns (i + BATCH_SIZE) ?c"
      using True by (simp add: mainLoop.simps [of lc world towns i c])
    also have "\<dots> = batchLoop lc world (i + BATCH_SIZE) ?rest ?c"
      using True by (rule "1.IH")
    also have "\<dots> = batchLoop lc world (i + length ?batch) ?rest ?c"
    proof (cases "i + BATCH_SIZE \<le> length towns")
      case True
      then have "length ?batch = BATCH_SIZE" by simp
      then show ?thesis by simp
    next
      case False
      then have "?rest = []" by simp
      then show ?thesis by simp
    qed
    also have "\<dots> = batchLoop lc world i (?batch @ ?rest) c"
      by (simp only: batchLoop_append)
    finally show ?thesis by (simp only: split)
  qed
qed

lemma countResult_fields:
  "totalSkipped (countResult r c) = totalSkipped c + (if r_skipped r then 1 else 0)"
  "totalErrors (countResult r c) = totalErrors c + (if errored r then 1 else 0)"
  "totalProcessed (countResult r c) = totalProcessed c + (if succeeded r then 1 else 0)"
  "totalBusinesses (countResult r c) = totalBusinesses c + (if succeeded r then r_businesses r else 0)"
  by (simp_all add: countResult_def succeeded_def errored_def)

lemma resultsFrom_simps:
  "resultsFrom lc world i [] = []"
  "resultsFrom lc world i (t # ts) = processTown lc t (world i) # resultsFrom lc world (Suc i) ts"
  by (simp_all add: resultsFrom_def)

lemma batchLoop_skipped:
  "totalSkipped (batchLoop lc world i ts c) =
     totalSkipped c + length (filter r_skipped (resultsFrom lc world i ts))"
  by (induction ts arbitrary: i c) (simp_all add: resultsFrom_simps countResult_fields)

lemma batchLoop_errors:
  "totalErrors (batchLoop lc world i ts c) =
     totalErrors c + length (filter errored (resultsFrom lc world i ts))"
  by (induction ts arbitrary: i c) (simp_all add: resultsFrom_simps countResult_fields)

lemma batchLoop_processed:
  "totalProcessed (batchLoop lc world i ts c) =
     totalProcessed c + length (filter succeeded (resultsFrom lc world i ts))"
  by (induction ts arbitrary: i c) (simp_all add: resultsFrom_simps countResult_fields)

lemma batchLoop_businesses:
  "totalBusinesses (batchLoop lc world i ts c) =
     totalBusinesses c + sum_list (map r_businesses (filter succeeded (resultsFrom lc world i ts)))"
  by (induction ts arbitrary: i c) (simp_all add: resultsFrom_simps countResult_fields)

lemma partition_results:
  "length (filter r_skipped rs) + length (filter succeeded rs) + length (filter errored rs)
     = length rs"
  by (induction rs) (auto simp: succeeded_def errored_def)

lemma all_errored:
  assumes "\<forall>r \<in> set rs. errored r"
  shows "filter succeeded rs = []" and "filter r_skipped rs = []" and "filter errored rs = rs"
  using assms by (induction rs) (auto simp: succeeded_def errored_def)

text \<open>
  C9. For every list of towns and whatever each town meets, the run counts every town
  once: the skipped counter is the number of skipped towns, the processed counter the
  number of towns that succeeded, the error counter the number of towns that failed,
  and the three add up to the number of towns. The counter of businesses is the sum of
  the business counts of the towns that succeeded. The summary block with the five
  figures is what the run prints last, also when every town failed.
\<close>

theorem main_summary:
  fixes lc :: "string \<Rightarrow> string \<Rightarrow> int" and world :: "nat \<Rightarrow> town_env"
    and towns :: "'n town list"
  defines "rs \<equiv> townResults lc world towns"
  defines "c \<equiv> fst (main lc world towns)"
  shows "totalSkipped c = length (filter r_skipped rs)
    \<and> totalProcessed c = length (filter succeeded rs)
    \<and> totalErrors c = length (filter errored rs)
    \<and> totalSkipped c + totalProcessed c + totalErrors c = length towns
    \<and> totalBusinesses c = sum_list (map r_businesses (filter succeeded rs))
    \<and> snd (main lc world towns) =
        [Line (CHR 0x0A # ''========== SUMMARY ==========''),
         Figure ''Total towns in NJ: '' (length towns),
         Figure ''Towns processed: '' (totalProcessed c),
         Figure ''Towns skipped (already exist): '' (totalSkipped c),
         Figure ''Towns with errors: '' (totalErrors c),
         Figure ''Total businesses found: '' (totalBusinesses c),
         Line (''=============================='' @ [CHR 0x0A])]
    \<and> ((\<forall>r \<in> set rs. errored r) \<longrightarrow>
        snd (main lc world towns) =
          [Line (CHR 0x0A # ''========== SUMMARY ==========''),
           Figure ''Total towns in NJ: '' (length towns),
           Figure ''Towns processed: '' 0,
           Figure ''Towns skipped (already exist): '' 0,
           Figure ''Towns with errors: '' (length towns),
           Figure ''Total businesses found: '' 0,
           Line (''=============================='' @ [CHR 0x0A])])"
proof -
  have k: "totalSkipped c = length (filter r_skipped rs)"
    unfolding c_def rs_def
    by (simp add: main_def Let_def mainLoop_flat batchLoop_skipped townResults_def)
  have p: "totalProcessed c = length (filter succeeded rs)"
    unfolding c_def rs_def
    by (simp add: main_def Let_def mainLoop_flat batchLoop_processed townResults_def)
  have e: "totalErrors c = length (filter errored rs)"
    unfolding c_def rs_def
    by (simp add: main_def Let_def mainLoop_flat batchLoop_errors townResults_def)
  have b: "totalBusinesses c = sum_list (map r_businesses (filter succeeded rs))"
    unfolding c_def rs_def
    by (simp add: main_def Let_def mainLoop_flat batchLoop_businesses townResults_def)
  have len: "length rs = length towns"
    by (simp add: rs_def townResults_def resultsFrom_def)
  have total: "totalSkipped c + totalProcessed c + totalErrors c = length towns"
    using partition_results [of rs] by (simp add: k p e len)
  have s: "snd (main lc world towns) = summaryBlock (length towns) c"
    by (simp add: main_def c_def Let_def)
  have s1: "snd (main lc world towns) =
        [Line (CHR 0x0A # ''========== SUMMARY ==========''),
         Figure ''Total towns in NJ: '' (length towns),
         Figure ''Towns processed: '' (totalProcessed c),
         Figure ''Towns skipped (already exist): '' (totalSkipped c),
         Figure ''Towns with errors: '' (totalErrors c),
         Figure ''Total businesses found: '' (totalBusinesses c),
         Line (''=============================='' @ [CHR 0x0A])]"
    by (simp add: s summaryBlock_def)
  have s2: "snd (main lc world towns) =
          [Line (CHR 0x0A # ''========== SUMMARY ==========''),
           Figure ''Total towns in NJ: '' (length towns),
           Figure ''Towns processed: '' 0,
           Figure ''Towns skipped (already exist): '' 0,
           Figure ''Towns with errors: '' (length towns),
           Figure ''Total businesses found: '' 0,
           Line (''=============================='' @ [CHR 0x0A])]"
    if "\<forall>r \<in> set rs. errored r"
    using all_errored [OF that] by (simp add: s1 k p e b len)
  show ?thesis
  proof (intro conjI impI)
    show "totalSkipped c = length (filter r_skipped rs)" by (rule k)
    show "totalProcessed c = length (filter succeeded rs)" by (rule p)
    show "totalErrors c = length (filter errored rs)" by (rule e)
    show "totalSkipped c + totalProcessed c + totalErrors c = length towns" by (rule total)
    show "totalBusinesses c = sum_list (map r_businesses (filter succeeded rs))" by (rule b)
    show "snd (main lc world towns) =
        [Line (CHR 0x0A # ''========== SUMMARY ==========''),
         Figure ''Total towns in NJ: '' (length towns),
         Figure ''Towns processed: '' (totalProcessed c),
         Figure ''Towns skipped (already exist): '' (totalSkipped c),
         Figure ''Towns with errors: '' (totalErrors c),
         Figure ''Total businesses found: '' (totalBusinesses c),
         Line (''=============================='' @ [CHR 0x0A])]" by (rule s1)
    show "snd (main lc world towns) =
          [Line (CHR 0x0A # ''========== SUMMARY ==========''),
           Figure ''Total towns in NJ: '' (length towns),
           Figure ''Towns processed: '' 0,
           Figure ''Towns skipped (already exist): '' 0,
           Figure ''Towns with errors: '' (length towns),
           Figure ''Total businesses found: '' 0,
           Line (''=============================='' @ [CHR 0x0A])]"
      if "\<forall>r \<in> set rs. errored r"
      using that by (rule s2)
  qed
qed

theorem main_summary_witness:
  "fst (main codeUnitCompare
      (\<lambda>i. [\<lparr>dataFileExists = True, overpass = Inl (Error ''unused''), writeError = None\<rparr>,
             \<lparr>dataFileExists = False, overpass = Inl (Error ''Request timeout''), writeError = None\<rparr>,
             \<lparr>dataFileExists = False,
              overpass = Inr \<lparr>elements = Some [node 1 [(''name'', ''Joe's Deli''), (''shop'', ''deli'')]]\<rparr>,
              writeError = None\<rparr>] ! i)
      [exampleTown, exampleTown, exampleTown])
     = \<lparr>totalProcessed = 1, totalSkipped = 1, totalBusinesses = 1, totalErrors = 1\<rparr>
   \<and> snd (main codeUnitCompare
      (\<lambda>i. \<lparr>dataFileExists = False, overpass = Inl (Error ''Request timeout''), writeError = None\<rparr>)
      [exampleTown, exampleTown])
     = [Line (CHR 0x0A # ''========== SUMMARY ==========''),
        Figure ''Total towns in NJ: '' 2,
        Figure ''Towns processed: '' 0,
        Figure ''Towns skipped (already exist): '' 0,
        Figure ''Towns with errors: '' 2,
        Figure ''Total businesses found: '' 0,
        Line (''=============================='' @ [CHR 0x0A])]"
proof -
  let ?world = "\<lambda>i. [\<lparr>dataFileExists = True, overpass = Inl (Error ''unused''), writeError = None\<rparr>,
             \<lparr>dataFileExists = False, overpass = Inl (Error ''Request timeout''), writeError = None\<rparr>,
             \<lparr>dataFileExists = False,
              overpass = Inr \<lparr>elements = Some [node 1 [(''name'', ''Joe's Deli''), (''shop'', ''deli'')]]\<rparr>,
              writeError = None\<rparr>] ! i"
  let ?towns = "[exampleTown, exampleTown, exampleTown]"
  have rs: "townResults codeUnitCompare ?world ?towns =
      [\<lparr>r_skipped = True, r_businesses = 0, r_error = False\<rparr>,
       \<lparr>r_skipped = False, r_businesses = 0, r_error = True\<rparr>,
       \<lparr>r_skipped = False, r_businesses = 1, r_error = False\<rparr>]"
    by code_simp
  have counted: "fst (main codeUnitCompare ?world ?towns)
     = \<lparr>totalProcessed = 1, totalSkipped = 1, totalBusinesses = 1, totalErrors = 1\<rparr>"
    using main_summary [where lc = codeUnitCompare and world = ?world and towns = ?towns]
    unfolding rs by (simp add: succeeded_def errored_def)
  let ?down = "\<lambda>i :: nat. \<lparr>dataFileExists = False, overpass = Inl (Error ''Request timeout''),
      writeError = None\<rparr>"
  have failed: "townResults codeUnitCompare ?down [exampleTown, exampleTown] =
      [\<lparr>r_skipped = False, r_businesses = 0, r_error = True\<rparr>,
       \<lparr>r_skipped = False, r_businesses = 0, r_error = True\<rparr>]"
    by code_simp
  have printed: "snd (main codeUnitCompare ?down [exampleTown, exampleTown])
     = [Line (CHR 0x0A # ''========== SUMMARY ==========''),
        Figure ''Total towns in NJ: '' 2,
        Figure ''Towns processed: '' 0,
        Figure ''Towns skipped (already exist): '' 0,
        Figure ''Towns with errors: '' 2,
        Figure ''Total businesses found: '' 0,
        Line (''=============================='' @ [CHR 0x0A])]"
    using main_summary [where lc = codeUnitCompare and world = ?down
        and towns = "[exampleTown, exampleTown]"]
    unfolding failed by (simp add: errored_def succeeded_def)
  from counted printed show ?thesis by simp
qed

end
